theory Spec2Isabelle
  imports Complex_Main "HOL-Library.Sublist" "HOL-Library.DAList" "HOL-Library.Multiset"
begin

section \<open>Python values\<close>

text \<open>
  Python's unbounded \<open>int\<close> is \<open>int\<close>. A Python \<open>float\<close> is modelled by the real number it
  stands for, with exact arithmetic: rounding of float operations, infinities and NaN are
  outside the model. A \<open>str\<close> is a \<open>string\<close>; \<open>needle in haystack\<close> on strings is
  \<open>sublist needle haystack\<close> (a contiguous run of characters).
  Every exception a modelled function can raise is a value of \<open>py_error\<close>, returned as \<open>Inl\<close>.
\<close>

datatype py_error = IndexError | ValueError | StatisticsError | ZeroDivisionError

definition py_int :: "real \<Rightarrow> int" where
  \<comment> \<open>\<open>int(x)\<close> on a float: truncation towards zero.\<close>
  "py_int x = (if 0 \<le> x then \<lfloor>x\<rfloor> else \<lceil>x\<rceil>)"

definition py_truediv :: "real \<Rightarrow> real \<Rightarrow> py_error + real" where
  \<comment> \<open>\<open>a / b\<close>\<close>
  "py_truediv a b = (if b = 0 then Inl ZeroDivisionError else Inr (a / b))"

definition py_getitem0 :: "'a list \<Rightarrow> py_error + 'a" where
  \<comment> \<open>\<open>xs[0]\<close>\<close>
  "py_getitem0 xs = (case xs of [] \<Rightarrow> Inl IndexError | x # _ \<Rightarrow> Inr x)"

fun py_max_key :: "('a \<Rightarrow> 'b::linorder) \<Rightarrow> 'a list \<Rightarrow> py_error + 'a" where
  \<comment> \<open>\<open>max(xs, key=key)\<close>: the first element whose key is maximal; \<open>ValueError\<close> on an empty
      sequence.\<close>
  "py_max_key key [] = Inl ValueError"
| "py_max_key key (x # xs) = Inr (foldl (\<lambda>best y. if key best < key y then y else best) x xs)"

definition statistics_mean :: "real list \<Rightarrow> py_error + real" where
  \<comment> \<open>\<open>statistics.mean(xs)\<close>: \<open>StatisticsError\<close> on an empty list.\<close>
  "statistics_mean xs =
     (if xs = [] then Inl StatisticsError else Inr (sum_list xs / real (length xs)))"

fun join :: "string \<Rightarrow> string list \<Rightarrow> string" where
  \<comment> \<open>\<open>sep.join(xs)\<close>\<close>
  "join sep [] = []"
| "join sep [x] = x"
| "join sep (x # y # ys) = x @ sep @ join sep (y # ys)"

subsection \<open>The backend's answer\<close>

text \<open>
  One time series of a \<open>list_time_series\<close> answer: the three labels the handlers read
  (\<open>resource.labels['namespace_name']\<close>, \<open>resource.labels['container_name']\<close>,
  \<open>metadata.system_labels['top_level_controller_name']\<close>) and its points. A point's
  \<open>value\<close> is a typed value, read as \<open>int64_value\<close> or as \<open>double_value\<close>.
\<close>

record point =
  int64_value :: int
  double_value :: real

record time_series =
  label_namespace_name :: string
  label_container_name :: string
  label_top_level_controller_name :: string
  points :: "point list"

type_synonym container_key = "string \<times> string \<times> string"

definition container_key :: "time_series \<Rightarrow> container_key" where
  "container_key metrics =
     (label_namespace_name metrics, label_container_name metrics,
      label_top_level_controller_name metrics)"

text \<open>
  \<open>self.container_metrics\<close> is a Python dict: keys are unique and keep their insertion
  order, which is the order of \<open>.items()\<close> and \<open>.values()\<close>. It is an association list with
  distinct keys; \<open>DAList.update\<close> appends a new key at the end and \<open>DAList.map_entry\<close> changes
  the record stored under a key in place, as an assignment to a field of the object the
  dict holds does.
\<close>

type_synonym 'm container_dict = "(container_key, 'm) alist"

definition upsert_container ::
  "(container_key \<Rightarrow> 'm) \<Rightarrow> time_series \<Rightarrow> 'm container_dict \<Rightarrow> 'm container_dict" where
  \<comment> \<open>\<open>upsert_container\<close> of both classes; \<open>new\<close> is the class's \<open>ContainerMetrics\<close> constructor
      with every numeric field at its default. The record it returns is the one stored under
      \<open>container_key metrics\<close> in the resulting dict.\<close>
  "upsert_container new metrics container_metrics =
     (case DAList.lookup container_metrics (container_key metrics) of
        None \<Rightarrow> DAList.update (container_key metrics) (new (container_key metrics)) container_metrics
      | Some container \<Rightarrow> container_metrics)"

fun gather ::
  "('q \<Rightarrow> time_series \<Rightarrow> 'd \<Rightarrow> py_error + 'd) \<Rightarrow> ('q \<times> time_series) list \<Rightarrow> 'd \<Rightarrow> py_error + 'd" where
  \<comment> \<open>\<open>await asyncio.gather(...)\<close> over the four query coroutines. Each coroutine runs the body
      of its \<open>async for\<close> loop once per series of its answer, and the bodies have no \<open>await\<close>
      inside; the event loop interleaves them in some order. The schedule lists the series
      in the order their bodies ran, each with the query it answers. The first exception
      raised ends the call.\<close>
  "gather handler [] d = Inr d"
| "gather handler ((q, metrics) # rest) d =
     (case handler q metrics d of Inl e \<Rightarrow> Inl e | Inr d' \<Rightarrow> gather handler rest d')"

fun drop_overprovisioner ::
  "('m \<Rightarrow> string) \<Rightarrow> ('m \<Rightarrow> 'm) \<Rightarrow> (container_key \<times> 'm) list \<Rightarrow> 'm container_dict \<Rightarrow> 'm container_dict" where
  \<comment> \<open>The loop \<open>for key, metrics in list(self.container_metrics.items())\<close> of the
      three aggregations, over the snapshot \<open>items\<close>: a record whose name contains
      \<open>overprovisioner\<close> is deleted from the dict; on any other record the loop body
      \<open>derive\<close> assigns the derived field (the command-line tool's loop has no such body).\<close>
  "drop_overprovisioner name derive [] container_metrics = container_metrics"
| "drop_overprovisioner name derive ((key, metrics) # items) container_metrics =
     (if sublist ''overprovisioner'' (name metrics)
      then drop_overprovisioner name derive items (DAList.delete key container_metrics)
      else drop_overprovisioner name derive items
             (DAList.map_entry key derive container_metrics))"

section \<open>metrics_client.py\<close>

record ContainerMetrics =
  container_name :: string
  top_level_controller_name :: string
  namespace :: string
  memory_request :: int
  avg_memory_usage :: real
  avg_memory_request_utilization :: real
  max_memory_usage :: int
  unutilized_memory :: int
  cpu_request :: real
  avg_cpu_usage :: real
  avg_cpu_request_utilization :: real
  max_cpu_usage :: real
  unutilized_cpu :: real

definition new_ContainerMetrics :: "container_key \<Rightarrow> ContainerMetrics" where
  \<comment> \<open>\<open>ContainerMetrics(namespace=..., container_name=..., top_level_controller_name=...)\<close>\<close>
  "new_ContainerMetrics k =
     (case k of (namespace_name, container, controller) \<Rightarrow>
        \<lparr>container_name = container, top_level_controller_name = controller,
         namespace = namespace_name,
         memory_request = 0, avg_memory_usage = 0, avg_memory_request_utilization = 0,
         max_memory_usage = 0, unutilized_memory = 0,
         cpu_request = 0, avg_cpu_usage = 0, avg_cpu_request_utilization = 0,
         max_cpu_usage = 0, unutilized_cpu = 0\<rparr>)"

text \<open>
  The eight query coroutines. Each definition is the body of the coroutine's
  \<open>async for metrics in results\<close> loop on one series \<open>metrics\<close>: the upsert, the value
  computed from the series' points, and the assignment to the one field. \<open>self\<close> is
  \<open>self.container_metrics\<close>. When the body raises, the call it belongs to raises and returns
  nothing; the dict it leaves behind is not part of the result.
\<close>

definition query_avg_memory_request_utilization ::
  "time_series \<Rightarrow> ContainerMetrics container_dict \<Rightarrow> py_error + ContainerMetrics container_dict" where
  "query_avg_memory_request_utilization metrics self =
     (let self = upsert_container new_ContainerMetrics metrics self in
      case statistics_mean (map double_value (points metrics)) of
        Inl e \<Rightarrow> Inl e
      | Inr v \<Rightarrow> Inr (DAList.map_entry (container_key metrics)
                        (\<lambda>container. container\<lparr>avg_memory_request_utilization := v\<rparr>) self))"

definition query_max_memory_usage ::
  "time_series \<Rightarrow> ContainerMetrics container_dict \<Rightarrow> py_error + ContainerMetrics container_dict" where
  "query_max_memory_usage metrics self =
     (let self = upsert_container new_ContainerMetrics metrics self in
      case py_max_key int64_value (points metrics) of
        Inl e \<Rightarrow> Inl e
      | Inr p \<Rightarrow> Inr (DAList.map_entry (container_key metrics)
                        (\<lambda>container. container\<lparr>max_memory_usage := int64_value p\<rparr>) self))"

definition query_avg_memory_usage ::
  "time_series \<Rightarrow> ContainerMetrics container_dict \<Rightarrow> py_error + ContainerMetrics container_dict" where
  "query_avg_memory_usage metrics self =
     (let self = upsert_container new_ContainerMetrics metrics self in
      case statistics_mean (map double_value (points metrics)) of
        Inl e \<Rightarrow> Inl e
      | Inr v \<Rightarrow> Inr (DAList.map_entry (container_key metrics)
                        (\<lambda>container. container\<lparr>avg_memory_usage := v\<rparr>) self))"

definition query_memory_request ::
  "time_series \<Rightarrow> ContainerMetrics container_dict \<Rightarrow> py_error + ContainerMetrics container_dict" where
  "query_memory_request metrics self =
     (let self = upsert_container new_ContainerMetrics metrics self in
      case py_getitem0 (points metrics) of
        Inl e \<Rightarrow> Inl e
      | Inr p \<Rightarrow> Inr (DAList.map_entry (container_key metrics)
                        (\<lambda>container. container\<lparr>memory_request := int64_value p\<rparr>) self))"

definition query_avg_cpu_request_utilization ::
  "time_series \<Rightarrow> ContainerMetrics container_dict \<Rightarrow> py_error + ContainerMetrics container_dict" where
  "query_avg_cpu_request_utilization metrics self =
     (let self = upsert_container new_ContainerMetrics metrics self in
      case statistics_mean (map double_value (points metrics)) of
        Inl e \<Rightarrow> Inl e
      | Inr v \<Rightarrow> Inr (DAList.map_entry (container_key metrics)
                        (\<lambda>container. container\<lparr>avg_cpu_request_utilization := v\<rparr>) self))"

definition query_max_cpu_usage ::
  "time_series \<Rightarrow> ContainerMetrics container_dict \<Rightarrow> py_error + ContainerMetrics container_dict" where
  "query_max_cpu_usage metrics self =
     (let self = upsert_container new_ContainerMetrics metrics self in
      case py_max_key double_value (points metrics) of
        Inl e \<Rightarrow> Inl e
      | Inr p \<Rightarrow> Inr (DAList.map_entry (container_key metrics)
                        (\<lambda>container. container\<lparr>max_cpu_usage := double_value p\<rparr>) self))"

definition query_avg_cpu_usage ::
  "time_series \<Rightarrow> ContainerMetrics container_dict \<Rightarrow> py_error + ContainerMetrics container_dict" where
  "query_avg_cpu_usage metrics self =
     (let self = upsert_container new_ContainerMetrics metrics self in
      case py_getitem0 (points metrics) of
        Inl e \<Rightarrow> Inl e
      | Inr p \<Rightarrow> Inr (DAList.map_entry (container_key metrics)
                        (\<lambda>container. container\<lparr>avg_cpu_usage := double_value p\<rparr>) self))"

definition query_cpu_request ::
  "time_series \<Rightarrow> ContainerMetrics container_dict \<Rightarrow> py_error + ContainerMetrics container_dict" where
  "query_cpu_request metrics self =
     (let self = upsert_container new_ContainerMetrics metrics self in
      case py_getitem0 (points metrics) of
        Inl e \<Rightarrow> Inl e
      | Inr p \<Rightarrow> Inr (DAList.map_entry (container_key metrics)
                        (\<lambda>container. container\<lparr>cpu_request := double_value p\<rparr>) self))"

datatype memory_query =
  Avg_memory_request_utilization | Max_memory_usage | Avg_memory_usage | Memory_request

datatype cpu_query =
  Avg_cpu_request_utilization | Max_cpu_usage | Avg_cpu_usage | Cpu_request

fun memory_coroutine ::
  "memory_query \<Rightarrow> time_series \<Rightarrow> ContainerMetrics container_dict
     \<Rightarrow> py_error + ContainerMetrics container_dict" where
  "memory_coroutine Avg_memory_request_utilization = query_avg_memory_request_utilization"
| "memory_coroutine Max_memory_usage = query_max_memory_usage"
| "memory_coroutine Avg_memory_usage = query_avg_memory_usage"
| "memory_coroutine Memory_request = query_memory_request"

fun cpu_coroutine ::
  "cpu_query \<Rightarrow> time_series \<Rightarrow> ContainerMetrics container_dict
     \<Rightarrow> py_error + ContainerMetrics container_dict" where
  "cpu_coroutine Avg_cpu_request_utilization = query_avg_cpu_request_utilization"
| "cpu_coroutine Max_cpu_usage = query_max_cpu_usage"
| "cpu_coroutine Avg_cpu_usage = query_avg_cpu_usage"
| "cpu_coroutine Cpu_request = query_cpu_request"

definition set_unutilized_memory :: "ContainerMetrics \<Rightarrow> ContainerMetrics" where
  \<comment> \<open>\<open>metrics.unutilized_memory = max(0, metrics.memory_request - metrics.max_memory_usage)\<close>\<close>
  "set_unutilized_memory metrics =
     metrics\<lparr>unutilized_memory := max 0 (memory_request metrics - max_memory_usage metrics)\<rparr>"

definition set_unutilized_cpu :: "ContainerMetrics \<Rightarrow> ContainerMetrics" where
  \<comment> \<open>\<open>metrics.unutilized_cpu = max(0, metrics.cpu_request - metrics.max_cpu_usage)\<close>\<close>
  "set_unutilized_cpu metrics =
     metrics\<lparr>unutilized_cpu := max 0 (cpu_request metrics - max_cpu_usage metrics)\<rparr>"

definition query_memory_utilization ::
  "(memory_query \<times> time_series) list \<Rightarrow> ContainerMetrics container_dict
     \<Rightarrow> py_error + (ContainerMetrics list \<times> ContainerMetrics container_dict)" where
  \<comment> \<open>Returns \<open>list(self.container_metrics.values())\<close> and the dict the client is left with.\<close>
  "query_memory_utilization schedule self =
     (case gather memory_coroutine schedule self of
        Inl e \<Rightarrow> Inl e
      | Inr self \<Rightarrow>
          (let self = drop_overprovisioner container_name set_unutilized_memory
                        (DAList.impl_of self) self
           in Inr (map snd (DAList.impl_of self), self)))"

definition query_cpu_utilization ::
  "(cpu_query \<times> time_series) list \<Rightarrow> ContainerMetrics container_dict
     \<Rightarrow> py_error + (ContainerMetrics list \<times> ContainerMetrics container_dict)" where
  "query_cpu_utilization schedule self =
     (case gather cpu_coroutine schedule self of
        Inl e \<Rightarrow> Inl e
      | Inr self \<Rightarrow>
          (let self = drop_overprovisioner container_name set_unutilized_cpu
                        (DAList.impl_of self) self
           in Inr (map snd (DAList.impl_of self), self)))"

subsection \<open>The request a query sends\<close>

datatype aligner = ALIGN_MEAN | ALIGN_MAX | ALIGN_RATE

datatype reducer = REDUCE_MEAN | REDUCE_MAX

record list_time_series_request =
  request_name :: string
  request_filter :: string
  alignment_period_seconds :: int
  per_series_aligner :: aligner
  cross_series_reducer :: reducer
  group_by_fields :: "string list"

definition quoted :: "string \<Rightarrow> string" where
  \<comment> \<open>The text between a pair of double quote characters, as the filter literals write it.\<close>
  "quoted s = CHR 0x22 # s @ [CHR 0x22]"

definition MetricsClient_query ::
  "string \<Rightarrow> string list option \<Rightarrow> aligner \<Rightarrow> reducer \<Rightarrow> string \<Rightarrow> list_time_series_request" where
  \<comment> \<open>\<open>MetricsClient.query\<close>: the request passed to \<open>list_time_series\<close>. \<open>if self.namespaces\<close>
      is false for \<open>None\<close> and for an empty list.\<close>
  "MetricsClient_query project namespaces aligner reducer query_filter =
     (let query_filter =
            query_filter @ '' AND resource.labels.namespace_name != '' @ quoted ''kube-system'';
          query_filter =
            (case namespaces of
               None \<Rightarrow> query_filter
             | Some [] \<Rightarrow> query_filter
             | Some (n # ns) \<Rightarrow>
                 query_filter @ '' AND ('' @
                   join '' OR ''
                     (map (\<lambda>namespace. ''resource.labels.namespace_name = '' @ quoted namespace)
                        (n # ns)) @ '')'')
      in \<lparr>request_name = ''projects/'' @ project,
          request_filter = query_filter,
          alignment_period_seconds = 60 * 60 * 3,
          per_series_aligner = aligner,
          cross_series_reducer = reducer,
          group_by_fields =
            [''resource.labels.namespace_name'', ''resource.container_name'',
             ''metadata.system_labels.top_level_controller_name'']\<rparr>)"

fun memory_query_args :: "memory_query \<Rightarrow> aligner \<times> reducer \<times> string" where
  \<comment> \<open>The \<open>aligner\<close>, \<open>reducer\<close> and \<open>query_filter\<close> arguments of each memory coroutine's
      call of \<open>self.query\<close>.\<close>
  "memory_query_args Avg_memory_request_utilization =
     (ALIGN_MEAN, REDUCE_MEAN,
      ''metric.type = '' @ quoted ''kubernetes.io/container/memory/request_utilization'')"
| "memory_query_args Max_memory_usage =
     (ALIGN_MAX, REDUCE_MAX,
      ''metric.type = '' @ quoted ''kubernetes.io/container/memory/used_bytes'')"
| "memory_query_args Avg_memory_usage =
     (ALIGN_MEAN, REDUCE_MEAN,
      ''metric.type = '' @ quoted ''kubernetes.io/container/memory/used_bytes'')"
| "memory_query_args Memory_request =
     (ALIGN_MAX, REDUCE_MAX,
      ''metric.type = '' @ quoted ''kubernetes.io/container/memory/request_bytes'')"

fun cpu_query_args :: "cpu_query \<Rightarrow> aligner \<times> reducer \<times> string" where
  "cpu_query_args Avg_cpu_request_utilization =
     (ALIGN_MEAN, REDUCE_MEAN,
      ''metric.type = '' @ quoted ''kubernetes.io/container/cpu/request_utilization'')"
| "cpu_query_args Max_cpu_usage =
     (ALIGN_RATE, REDUCE_MAX,
      ''metric.type = '' @ quoted ''kubernetes.io/container/cpu/core_usage_time'')"
| "cpu_query_args Avg_cpu_usage =
     (ALIGN_RATE, REDUCE_MEAN,
      ''metric.type = '' @ quoted ''kubernetes.io/container/cpu/core_usage_time'')"
| "cpu_query_args Cpu_request =
     (ALIGN_MEAN, REDUCE_MAX,
      ''metric.type = '' @ quoted ''kubernetes.io/container/cpu/request_cores'')"

definition memory_request_sent ::
  "string \<Rightarrow> string list option \<Rightarrow> memory_query \<Rightarrow> list_time_series_request" where
  "memory_request_sent project namespaces q =
     (case memory_query_args q of
        (aligner, reducer, query_filter) \<Rightarrow>
          MetricsClient_query project namespaces aligner reducer query_filter)"

definition cpu_request_sent ::
  "string \<Rightarrow> string list option \<Rightarrow> cpu_query \<Rightarrow> list_time_series_request" where
  "cpu_request_sent project namespaces q =
     (case cpu_query_args q of
        (aligner, reducer, query_filter) \<Rightarrow>
          MetricsClient_query project namespaces aligner reducer query_filter)"

section \<open>metrics_server/metrics_server.py\<close>

datatype OutputFormat = Table | Json | Csv

datatype MetricType = Memory | Cpu

text \<open>
  What the formatter hands to the rendering libraries is kept structured: a cell of the
  table is a piece of text built from literals, from numbers under a format
  (\<open>Fixed0 x\<close> is \<open>f'{x:.0f}'\<close>, \<open>Percent0 x\<close> is \<open>f'{x:.0%}'\<close>, \<open>Dec n\<close> is the decimal text of an
  \<open>int\<close>), by concatenation, and by \<open>termcolor.colored\<close>. \<open>tabulate.tabulate\<close> is the pair of its
  arguments.
\<close>

datatype color = Red | Yellow | Green

datatype cell =
    Str string
  | Fixed0 real
  | Percent0 real
  | Dec int
  | Cat "cell list"
  | Colored (color_of: color) (text_of: cell)

record tabulate =
  tabular_data :: "cell list list"
  headers :: "string list"

definition percentage_gradient :: "real \<Rightarrow> cell" where
  "percentage_gradient v =
     (let color = (if v < 0.3 then Red else if v < 0.6 then Yellow else Green)
      in Colored color (Percent0 v))"

definition memory_bytes_gradient :: "real \<Rightarrow> cell" where
  "memory_bytes_gradient v =
     (let value_in_mb = py_int (v / 1024 ^ 2);
          color = (if value_in_mb > 200 then Red else if value_in_mb > 100 then Yellow else Green)
      in Colored color (Cat [Dec value_in_mb, Str ''M'']))"

definition cpu_gradient :: "real \<Rightarrow> cell" where
  "cpu_gradient v =
     (let value_in_milicores = py_int (v * 1000);
          color = (if value_in_milicores > 1000 then Red
                   else if value_in_milicores > 100 then Yellow else Green)
      in Colored color (Dec value_in_milicores))"

definition sort_reverse :: "('a \<Rightarrow> 'k::linordered_idom) \<Rightarrow> 'a list \<Rightarrow> 'a list" where
  \<comment> \<open>\<open>xs.sort(key=key, reverse=True)\<close> on numeric keys: descending in the key, and stable
      (records with equal keys keep their order). \<open>sort_key\<close> is the stable insertion sort
      of the library, ascending; it is run on the negated key.\<close>
  "sort_reverse key xs = sort_key (\<lambda>x. - key x) xs"

definition memory_row :: "ContainerMetrics \<Rightarrow> cell list" where
  \<comment> \<open>The row \<open>format_memory_metrics_as_table\<close> appends for one record.\<close>
  "memory_row metric =
     [Str (namespace metric),
      Str (top_level_controller_name metric @ ''/'' @ container_name metric),
      Cat [Fixed0 (real_of_int (memory_request metric) / 1024 ^ 2), Str ''M''],
      Cat [Fixed0 (avg_memory_usage metric / 1024 ^ 2), Str ''M''],
      Cat [Fixed0 (real_of_int (max_memory_usage metric) / 1024 ^ 2), Str ''M''],
      percentage_gradient (avg_memory_request_utilization metric),
      memory_bytes_gradient (real_of_int (unutilized_memory metric))]"

definition format_memory_metrics_as_table :: "ContainerMetrics list \<Rightarrow> py_error + tabulate" where
  "format_memory_metrics_as_table metrics =
     (let metrics = sort_reverse unutilized_memory metrics;
          table = map memory_row metrics
      in case py_truediv (sum_list (map avg_memory_request_utilization metrics))
                (real (length metrics)) of
           Inl e \<Rightarrow> Inl e
         | Inr u \<Rightarrow>
        (case py_truediv (sum_list (map avg_memory_usage metrics)) (real (length metrics)) of
           Inl e \<Rightarrow> Inl e
         | Inr total_avg_memory_usage \<Rightarrow>
        (let total_avg_memory_request_utilization = percentage_gradient u;
             total_avg_memory_request = sum_list (map memory_request metrics);
             total_unutilized_memory = sum_list (map unutilized_memory metrics)
         in Inr \<lparr>tabular_data = table @
                    [[Str ''Total'', Str [],
                      Cat [Fixed0 (real_of_int total_avg_memory_request / 1024 ^ 3), Str '' GB''],
                      Cat [Fixed0 (total_avg_memory_usage / 1024 ^ 2), Str ''M''],
                      Str [],
                      total_avg_memory_request_utilization,
                      Cat [Fixed0 (real_of_int total_unutilized_memory / 1024 ^ 3), Str '' GB'']]],
                 headers = [''Namespace'', ''Deployment/Container'', ''Request'', ''Avg'', ''Max'',
                            ''Avg Utilization'', ''Unutilized'']\<rparr>)))"

definition cpu_row :: "ContainerMetrics \<Rightarrow> cell list" where
  \<comment> \<open>The row \<open>format_cpu_metrics_as_table\<close> appends for one record.\<close>
  "cpu_row metric =
     [Str (namespace metric),
      Str (top_level_controller_name metric @ ''/'' @ container_name metric),
      Dec (py_int (cpu_request metric * 1000)),
      Cat [Dec (py_int (avg_cpu_usage metric * 1000)), Str '' ('',
           percentage_gradient (avg_cpu_request_utilization metric), Str '')''],
      Dec (py_int (max_cpu_usage metric * 1000)),
      cpu_gradient (unutilized_cpu metric)]"

definition format_cpu_metrics_as_table :: "ContainerMetrics list \<Rightarrow> py_error + tabulate" where
  \<comment> \<open>\<open>total_avg_cpu_request_utilization\<close> is computed, and its cell is commented out of the
      row.\<close>
  "format_cpu_metrics_as_table metrics =
     (let metrics = sort_reverse unutilized_cpu metrics;
          table = map cpu_row metrics
      in case py_truediv (sum_list (map avg_cpu_request_utilization metrics))
                (real (length metrics)) of
           Inl e \<Rightarrow> Inl e
         | Inr u \<Rightarrow>
        (case py_truediv (sum_list (map avg_cpu_usage metrics)) (real (length metrics)) of
           Inl e \<Rightarrow> Inl e
         | Inr total_avg_cpu_usage \<Rightarrow>
        (let total_avg_cpu_request_utilization = percentage_gradient u;
             total_avg_cpu_request = sum_list (map cpu_request metrics);
             total_unutilized_cpu = sum_list (map unutilized_cpu metrics)
         in Inr \<lparr>tabular_data = table @
                    [[Str ''Total'', Str [],
                      Dec (py_int (total_avg_cpu_request * 1000)),
                      Dec (py_int (total_avg_cpu_usage * 1000)),
                      Str [],
                      Dec (py_int (total_unutilized_cpu * 1000))]],
                 headers = [''Namespace'', ''Deployment/Container'', ''Request'', ''Avg'', ''Max'',
                            ''Unutilized'']\<rparr>)))"

datatype returned =
    Response tabulate  \<comment> \<open>\<open>fastapi.Response(content=table + '\n')\<close>\<close>
  | Records "ContainerMetrics list"  \<comment> \<open>\<open>return metrics\<close>\<close>
  | PyNone  \<comment> \<open>the function ends without a \<open>return\<close>\<close>

definition format_metrics ::
  "MetricType \<Rightarrow> OutputFormat \<Rightarrow> ContainerMetrics list \<Rightarrow> py_error + returned" where
  "format_metrics metric_type output_format metrics =
     (case output_format of
        Table \<Rightarrow>
          (case (case metric_type of
                   Memory \<Rightarrow> format_memory_metrics_as_table metrics
                 | Cpu \<Rightarrow> format_cpu_metrics_as_table metrics) of
             Inl e \<Rightarrow> Inl e
           | Inr table \<Rightarrow> Inr (Response table))
      | Json \<Rightarrow> Inr (Records metrics)
      | Csv \<Rightarrow> Inr PyNone)"

section \<open>kube-utilization-monitor.py\<close>

text \<open>
  The command-line tool is a script of its own, with its own \<open>ContainerMetrics\<close>,
  \<open>UtilizationMonitor\<close>, \<open>percentage_gradient\<close> and \<open>mb_gradient\<close>. Names that the server's
  module also defines carry the prefix \<open>kum_\<close> here.
\<close>

record kum_ContainerMetrics =
  kum_container_name :: string
  kum_top_level_controller_name :: string
  kum_namespace :: string
  kum_memory_request :: int
  kum_avg_memory_usage :: real
  kum_avg_memory_request_utilization :: real
  kum_max_memory_usage :: int

definition kum_unutilized_memory :: "kum_ContainerMetrics \<Rightarrow> int" where
  \<comment> \<open>The property \<open>ContainerMetrics.unutilized_memory\<close>.\<close>
  "kum_unutilized_memory self = max 0 (kum_memory_request self - kum_max_memory_usage self)"

definition kum_new_ContainerMetrics :: "container_key \<Rightarrow> kum_ContainerMetrics" where
  "kum_new_ContainerMetrics k =
     (case k of (namespace_name, container, controller) \<Rightarrow>
        \<lparr>kum_container_name = container, kum_top_level_controller_name = controller,
         kum_namespace = namespace_name,
         kum_memory_request = 0, kum_avg_memory_usage = 0,
         kum_avg_memory_request_utilization = 0, kum_max_memory_usage = 0\<rparr>)"

definition UtilizationMonitor_query ::
  "string \<Rightarrow> string list option \<Rightarrow> int \<Rightarrow> aligner \<Rightarrow> reducer \<Rightarrow> string
     \<Rightarrow> list_time_series_request" where
  \<comment> \<open>\<open>UtilizationMonitor.query\<close>; \<open>duration\<close> is \<open>self.duration\<close>, in seconds.\<close>
  "UtilizationMonitor_query project namespaces duration aligner reducer query_filter =
     (let query_filter =
            (case namespaces of
               None \<Rightarrow> query_filter
             | Some [] \<Rightarrow> query_filter
             | Some (n # ns) \<Rightarrow>
                 query_filter @ '' AND ('' @
                   join '' OR ''
                     (map (\<lambda>namespace. ''resource.labels.namespace_name = '' @ quoted namespace)
                        (n # ns)) @ '')'')
      in \<lparr>request_name = ''projects/'' @ project,
          request_filter = query_filter,
          alignment_period_seconds = duration,
          per_series_aligner = aligner,
          cross_series_reducer = reducer,
          group_by_fields =
            [''resource.labels.namespace_name'', ''resource.container_name'',
             ''metadata.system_labels.top_level_controller_name'']\<rparr>)"

definition kum_request_sent ::
  "string \<Rightarrow> string list option \<Rightarrow> int \<Rightarrow> memory_query \<Rightarrow> list_time_series_request" where
  \<comment> \<open>The four coroutines of the tool call \<open>self.query\<close> with the same aligner, reducer and
      metric type as the memory coroutines of \<open>MetricsClient\<close>.\<close>
  "kum_request_sent project namespaces duration q =
     (case memory_query_args q of
        (aligner, reducer, query_filter) \<Rightarrow>
          UtilizationMonitor_query project namespaces duration aligner reducer query_filter)"

definition kum_query_avg_memory_request_utilization ::
  "time_series \<Rightarrow> kum_ContainerMetrics container_dict
     \<Rightarrow> py_error + kum_ContainerMetrics container_dict" where
  "kum_query_avg_memory_request_utilization metrics self =
     (let self = upsert_container kum_new_ContainerMetrics metrics self in
      case py_getitem0 (points metrics) of
        Inl e \<Rightarrow> Inl e
      | Inr p \<Rightarrow> Inr (DAList.map_entry (container_key metrics)
                        (\<lambda>container. container\<lparr>kum_avg_memory_request_utilization := double_value p\<rparr>)
                        self))"

definition kum_query_max_memory_usage ::
  "time_series \<Rightarrow> kum_ContainerMetrics container_dict
     \<Rightarrow> py_error + kum_ContainerMetrics container_dict" where
  "kum_query_max_memory_usage metrics self =
     (let self = upsert_container kum_new_ContainerMetrics metrics self in
      case py_getitem0 (points metrics) of
        Inl e \<Rightarrow> Inl e
      | Inr p \<Rightarrow> Inr (DAList.map_entry (container_key metrics)
                        (\<lambda>container. container\<lparr>kum_max_memory_usage := int64_value p\<rparr>) self))"

definition kum_query_avg_memory_usage ::
  "time_series \<Rightarrow> kum_ContainerMetrics container_dict
     \<Rightarrow> py_error + kum_ContainerMetrics container_dict" where
  "kum_query_avg_memory_usage metrics self =
     (let self = upsert_container kum_new_ContainerMetrics metrics self in
      case py_getitem0 (points metrics) of
        Inl e \<Rightarrow> Inl e
      | Inr p \<Rightarrow> Inr (DAList.map_entry (container_key metrics)
                        (\<lambda>container. container\<lparr>kum_avg_memory_usage := double_value p\<rparr>) self))"

definition kum_query_memory_request ::
  "time_series \<Rightarrow> kum_ContainerMetrics container_dict
     \<Rightarrow> py_error + kum_ContainerMetrics container_dict" where
  "kum_query_memory_request metrics self =
     (let self = upsert_container kum_new_ContainerMetrics metrics self in
      case py_getitem0 (points metrics) of
        Inl e \<Rightarrow> Inl e
      | Inr p \<Rightarrow> Inr (DAList.map_entry (container_key metrics)
                        (\<lambda>container. container\<lparr>kum_memory_request := int64_value p\<rparr>) self))"

fun kum_coroutine ::
  "memory_query \<Rightarrow> time_series \<Rightarrow> kum_ContainerMetrics container_dict
     \<Rightarrow> py_error + kum_ContainerMetrics container_dict" where
  "kum_coroutine Avg_memory_request_utilization = kum_query_avg_memory_request_utilization"
| "kum_coroutine Max_memory_usage = kum_query_max_memory_usage"
| "kum_coroutine Avg_memory_usage = kum_query_avg_memory_usage"
| "kum_coroutine Memory_request = kum_query_memory_request"

definition query_metrics ::
  "(memory_query \<times> time_series) list \<Rightarrow> kum_ContainerMetrics container_dict
     \<Rightarrow> py_error + kum_ContainerMetrics container_dict" where
  \<comment> \<open>\<open>UtilizationMonitor.query_metrics\<close>; the result is \<open>self.container_metrics\<close> afterwards.\<close>
  "query_metrics schedule self =
     (case gather kum_coroutine schedule self of
        Inl e \<Rightarrow> Inl e
      | Inr self \<Rightarrow>
          Inr (drop_overprovisioner kum_container_name (\<lambda>metrics. metrics)
                 (DAList.impl_of self) self))"

definition kum_percentage_gradient :: "real \<Rightarrow> cell" where
  "kum_percentage_gradient v =
     (let color = (if v < 0.3 then Red else if v < 0.6 then Yellow else Green)
      in Colored color (Percent0 v))"

definition mb_gradient :: "real \<Rightarrow> cell" where
  "mb_gradient v =
     (let value_in_mb = py_int (v / 1024 ^ 2);
          color = (if value_in_mb > 200 then Red else if value_in_mb > 100 then Yellow else Green)
      in Colored color (Cat [Dec value_in_mb, Str '' MB'']))"

definition kum_row :: "kum_ContainerMetrics \<Rightarrow> cell list" where
  \<comment> \<open>The row \<open>print_utilization\<close> appends for one record.\<close>
  "kum_row metrics =
     [Str (kum_namespace metrics),
      Str (kum_top_level_controller_name metrics @ ''/'' @ kum_container_name metrics),
      Cat [Fixed0 (real_of_int (kum_memory_request metrics) / 1024 ^ 2), Str '' MB''],
      Cat [Fixed0 (kum_avg_memory_usage metrics / 1024 ^ 2), Str '' MB''],
      Cat [Fixed0 (real_of_int (kum_max_memory_usage metrics) / 1024 ^ 2), Str '' MB''],
      kum_percentage_gradient (kum_avg_memory_request_utilization metrics),
      mb_gradient (real_of_int (kum_unutilized_memory metrics))]"

definition print_utilization ::
  "(memory_query \<times> time_series) list \<Rightarrow> kum_ContainerMetrics container_dict
     \<Rightarrow> py_error + tabulate" where
  \<comment> \<open>\<open>UtilizationMonitor.print_utilization\<close>; the result is the table it prints.\<close>
  "print_utilization schedule self =
     (case query_metrics schedule self of
        Inl e \<Rightarrow> Inl e
      | Inr self \<Rightarrow>
     (let container_metrics = map snd (DAList.impl_of self);
          container_metrics = sort_reverse kum_unutilized_memory container_metrics;
          table = map kum_row container_metrics
      in case py_truediv (sum_list (map kum_avg_memory_request_utilization container_metrics))
                (real (length container_metrics)) of
           Inl e \<Rightarrow> Inl e
         | Inr u \<Rightarrow>
        (case py_truediv (sum_list (map kum_avg_memory_usage container_metrics))
                (real (length container_metrics)) of
           Inl e \<Rightarrow> Inl e
         | Inr total_avg_memory_usage \<Rightarrow>
        (let total_avg_memory_request_utilization = kum_percentage_gradient u;
             total_avg_memory_request = sum_list (map kum_memory_request container_metrics);
             total_unutilized_memory = sum_list (map kum_unutilized_memory container_metrics)
         in Inr \<lparr>tabular_data = table @
                    [[Str ''Total'', Str [],
                      Cat [Fixed0 (real_of_int total_avg_memory_request / 1024 ^ 3), Str '' GB''],
                      Cat [Fixed0 (total_avg_memory_usage / 1024 ^ 2), Str '' MB''],
                      Str [],
                      total_avg_memory_request_utilization,
                      Cat [Fixed0 (real_of_int total_unutilized_memory / 1024 ^ 3), Str '' GB'']]],
                 headers = [''Namespace'', ''Deployment/Container'', ''Mem Req'',
                            ''Avg Mem Usage'', ''Max Mem Usage'', ''Avg Mem Req Util'',
                            ''Unutilized Mem'']\<rparr>))))"

section \<open>Notions used by the statements and proofs\<close>

text \<open>
  The eight coroutine bodies share one shape: upsert the record, compute an assignment
  from the points (or raise), apply it to the record under the series' key.
\<close>

definition write_field ::
  "(container_key \<Rightarrow> 'm) \<Rightarrow> py_error + ('m \<Rightarrow> 'm) \<Rightarrow> time_series \<Rightarrow> 'm container_dict
     \<Rightarrow> py_error + 'm container_dict" where
  "write_field new assignment metrics self =
     (case assignment of
        Inl e \<Rightarrow> Inl e
      | Inr f \<Rightarrow> Inr (DAList.map_entry (container_key metrics) f
                        (upsert_container new metrics self)))"

fun memory_assignment ::
  "memory_query \<Rightarrow> point list \<Rightarrow> py_error + (ContainerMetrics \<Rightarrow> ContainerMetrics)" where
  "memory_assignment Avg_memory_request_utilization ps =
     map_sum id (\<lambda>v c. c\<lparr>avg_memory_request_utilization := v\<rparr>)
       (statistics_mean (map double_value ps))"
| "memory_assignment Max_memory_usage ps =
     map_sum id (\<lambda>p c. c\<lparr>max_memory_usage := int64_value p\<rparr>) (py_max_key int64_value ps)"
| "memory_assignment Avg_memory_usage ps =
     map_sum id (\<lambda>v c. c\<lparr>avg_memory_usage := v\<rparr>) (statistics_mean (map double_value ps))"
| "memory_assignment Memory_request ps =
     map_sum id (\<lambda>p c. c\<lparr>memory_request := int64_value p\<rparr>) (py_getitem0 ps)"

fun cpu_assignment ::
  "cpu_query \<Rightarrow> point list \<Rightarrow> py_error + (ContainerMetrics \<Rightarrow> ContainerMetrics)" where
  "cpu_assignment Avg_cpu_request_utilization ps =
     map_sum id (\<lambda>v c. c\<lparr>avg_cpu_request_utilization := v\<rparr>)
       (statistics_mean (map double_value ps))"
| "cpu_assignment Max_cpu_usage ps =
     map_sum id (\<lambda>p c. c\<lparr>max_cpu_usage := double_value p\<rparr>) (py_max_key double_value ps)"
| "cpu_assignment Avg_cpu_usage ps =
     map_sum id (\<lambda>p c. c\<lparr>avg_cpu_usage := double_value p\<rparr>) (py_getitem0 ps)"
| "cpu_assignment Cpu_request ps =
     map_sum id (\<lambda>p c. c\<lparr>cpu_request := double_value p\<rparr>) (py_getitem0 ps)"

text \<open>The field a query is responsible for still has its default value.\<close>

fun memory_field_default :: "memory_query \<Rightarrow> ContainerMetrics \<Rightarrow> bool" where
  "memory_field_default Avg_memory_request_utilization m \<longleftrightarrow>
     avg_memory_request_utilization m = 0"
| "memory_field_default Max_memory_usage m \<longleftrightarrow> max_memory_usage m = 0"
| "memory_field_default Avg_memory_usage m \<longleftrightarrow> avg_memory_usage m = 0"
| "memory_field_default Memory_request m \<longleftrightarrow> memory_request m = 0"

fun cpu_field_default :: "cpu_query \<Rightarrow> ContainerMetrics \<Rightarrow> bool" where
  "cpu_field_default Avg_cpu_request_utilization m \<longleftrightarrow> avg_cpu_request_utilization m = 0"
| "cpu_field_default Max_cpu_usage m \<longleftrightarrow> max_cpu_usage m = 0"
| "cpu_field_default Avg_cpu_usage m \<longleftrightarrow> avg_cpu_usage m = 0"
| "cpu_field_default Cpu_request m \<longleftrightarrow> cpu_request m = 0"

text \<open>
  The invariant of the gathered coroutines on the records created since the call began
  (those whose key the dict \<open>self\<close> at the start of the call does not hold): the fields of
  the other family and both derived fields are at their defaults, and a field of the
  family is at its default unless a body of its query ran on that key (the pairs in \<open>W\<close>).
\<close>

definition created_by_memory_call ::
  "ContainerMetrics container_dict \<Rightarrow> (memory_query \<times> container_key) set
     \<Rightarrow> ContainerMetrics container_dict \<Rightarrow> bool" where
  "created_by_memory_call self W d \<longleftrightarrow>
     (\<forall>k m. DAList.lookup d k = Some m \<longrightarrow> DAList.lookup self k = None \<longrightarrow>
        (\<forall>q. cpu_field_default q m) \<and> unutilized_cpu m = 0 \<and> unutilized_memory m = 0 \<and>
        (\<forall>q. memory_field_default q m \<or> (q, k) \<in> W))"

definition created_by_cpu_call ::
  "ContainerMetrics container_dict \<Rightarrow> (cpu_query \<times> container_key) set
     \<Rightarrow> ContainerMetrics container_dict \<Rightarrow> bool" where
  "created_by_cpu_call self W d \<longleftrightarrow>
     (\<forall>k m. DAList.lookup d k = Some m \<longrightarrow> DAList.lookup self k = None \<longrightarrow>
        (\<forall>q. memory_field_default q m) \<and> unutilized_memory m = 0 \<and> unutilized_cpu m = 0 \<and>
        (\<forall>q. cpu_field_default q m \<or> (q, k) \<in> W))"

subsection \<open>The filter the specification describes\<close>

text \<open>
  The specification's reading of a query filter: a conjunction of the metric type, the
  exclusion of the \<open>kube-system\<close> namespace and, when an allow-list is supplied, a disjunction
  over its namespaces. \<open>render\<close> writes such a filter in the backend's filter syntax, and
  \<open>holds\<close> says which series it selects, \<open>label\<close> giving the value of each field of a series.
\<close>

datatype spec_filter =
    Equals string string
  | Differs string string
  | All_of "spec_filter list"
  | Any_of "spec_filter list"

fun render :: "spec_filter \<Rightarrow> string" where
  "render (Equals field v) = field @ '' = '' @ quoted v"
| "render (Differs field v) = field @ '' != '' @ quoted v"
| "render (All_of fs) = join '' AND '' (map render fs)"
| "render (Any_of fs) = ''('' @ join '' OR '' (map render fs) @ '')''"

fun holds :: "(string \<Rightarrow> string) \<Rightarrow> spec_filter \<Rightarrow> bool" where
  "holds label (Equals field v) \<longleftrightarrow> label field = v"
| "holds label (Differs field v) \<longleftrightarrow> label field \<noteq> v"
| "holds label (All_of fs) \<longleftrightarrow> list_all (holds label) fs"
| "holds label (Any_of fs) \<longleftrightarrow> list_ex (holds label) fs"

definition spec_query_filter :: "bool \<Rightarrow> string \<Rightarrow> string list option \<Rightarrow> spec_filter" where
  \<comment> \<open>\<open>exclude_kube_system\<close> says whether the exclusion clause is part of the filter.\<close>
  "spec_query_filter exclude_kube_system metric_type namespaces =
     All_of ([Equals ''metric.type'' metric_type] @
             (if exclude_kube_system
              then [Differs ''resource.labels.namespace_name'' ''kube-system''] else []) @
             (case namespaces of
                None \<Rightarrow> []
              | Some [] \<Rightarrow> []
              | Some (n # ns) \<Rightarrow>
                  [Any_of (map (Equals ''resource.labels.namespace_name'') (n # ns))]))"

fun memory_metric_type :: "memory_query \<Rightarrow> string" where
  "memory_metric_type Avg_memory_request_utilization =
     ''kubernetes.io/container/memory/request_utilization''"
| "memory_metric_type Max_memory_usage = ''kubernetes.io/container/memory/used_bytes''"
| "memory_metric_type Avg_memory_usage = ''kubernetes.io/container/memory/used_bytes''"
| "memory_metric_type Memory_request = ''kubernetes.io/container/memory/request_bytes''"

fun cpu_metric_type :: "cpu_query \<Rightarrow> string" where
  "cpu_metric_type Avg_cpu_request_utilization =
     ''kubernetes.io/container/cpu/request_utilization''"
| "cpu_metric_type Max_cpu_usage = ''kubernetes.io/container/cpu/core_usage_time''"
| "cpu_metric_type Avg_cpu_usage = ''kubernetes.io/container/cpu/core_usage_time''"
| "cpu_metric_type Cpu_request = ''kubernetes.io/container/cpu/request_cores''"

subsection \<open>Example inputs\<close>

definition int_series :: "string \<Rightarrow> int list \<Rightarrow> time_series" where
  "int_series name vs =
     \<lparr>label_namespace_name = ''prod'', label_container_name = name,
      label_top_level_controller_name = ''deploy'',
      points = map (\<lambda>v. \<lparr>int64_value = v, double_value = 0\<rparr>) vs\<rparr>"

definition double_series :: "string \<Rightarrow> real list \<Rightarrow> time_series" where
  "double_series name vs =
     \<lparr>label_namespace_name = ''prod'', label_container_name = name,
      label_top_level_controller_name = ''deploy'',
      points = map (\<lambda>v. \<lparr>int64_value = 0, double_value = v\<rparr>) vs\<rparr>"

definition example_memory_schedule :: "(memory_query \<times> time_series) list" where
  \<comment> \<open>Requests of 500 MiB and 300 MiB against peak usages of 100 MiB and 350 MiB, and an
      overprovisioner container.\<close>
  "example_memory_schedule =
     [(Memory_request, int_series ''api'' [500 * 1024 ^ 2]),
      (Max_memory_usage, int_series ''worker'' [350 * 1024 ^ 2]),
      (Memory_request, int_series ''cluster-overprovisioner'' [900 * 1024 ^ 2]),
      (Max_memory_usage, int_series ''api'' [100 * 1024 ^ 2]),
      (Memory_request, int_series ''worker'' [300 * 1024 ^ 2])]"

definition example_cpu_schedule :: "(cpu_query \<times> time_series) list" where
  "example_cpu_schedule =
     [(Cpu_request, double_series ''api'' [2]),
      (Max_cpu_usage, double_series ''api'' [1 / 2]),
      (Cpu_request, double_series ''cluster-overprovisioner'' [4]),
      (Max_cpu_usage, double_series ''worker'' [3]),
      (Cpu_request, double_series ''worker'' [1])]"

definition example_metrics :: "ContainerMetrics list" where
  \<comment> \<open>Two records with the fields of both families set, the smaller unutilized values
      first.\<close>
  "example_metrics =
     [(new_ContainerMetrics (''prod'', ''worker'', ''deploy''))
        \<lparr>memory_request := 300 * 1024 ^ 2, max_memory_usage := 350 * 1024 ^ 2,
         unutilized_memory := 0, cpu_request := 1, max_cpu_usage := 3, unutilized_cpu := 0\<rparr>,
      (new_ContainerMetrics (''prod'', ''api'', ''deploy''))
        \<lparr>memory_request := 500 * 1024 ^ 2, max_memory_usage := 100 * 1024 ^ 2,
         unutilized_memory := 400 * 1024 ^ 2, cpu_request := 2, max_cpu_usage := 1 / 2,
         unutilized_cpu := 3 / 2\<rparr>]"

definition example_memory_items :: "(container_key \<times> ContainerMetrics) list" where
  \<comment> \<open>What \<open>query_memory_utilization\<close> leaves in a new client's dict on
      \<open>example_memory_schedule\<close>.\<close>
  "example_memory_items =
     [((''prod'', ''api'', ''deploy''),
       (new_ContainerMetrics (''prod'', ''api'', ''deploy''))
         \<lparr>memory_request := 500 * 1024 ^ 2, max_memory_usage := 100 * 1024 ^ 2,
          unutilized_memory := 400 * 1024 ^ 2\<rparr>),
      ((''prod'', ''worker'', ''deploy''),
       (new_ContainerMetrics (''prod'', ''worker'', ''deploy''))
         \<lparr>memory_request := 300 * 1024 ^ 2, max_memory_usage := 350 * 1024 ^ 2,
          unutilized_memory := 0\<rparr>)]"

definition example_cpu_items :: "(container_key \<times> ContainerMetrics) list" where
  \<comment> \<open>What \<open>query_cpu_utilization\<close> leaves in a new client's dict on \<open>example_cpu_schedule\<close>.\<close>
  "example_cpu_items =
     [((''prod'', ''api'', ''deploy''),
       (new_ContainerMetrics (''prod'', ''api'', ''deploy''))
         \<lparr>cpu_request := 2, max_cpu_usage := 1 / 2, unutilized_cpu := 3 / 2\<rparr>),
      ((''prod'', ''worker'', ''deploy''),
       (new_ContainerMetrics (''prod'', ''worker'', ''deploy''))
         \<lparr>cpu_request := 1, max_cpu_usage := 3, unutilized_cpu := 0\<rparr>)]"

definition example_kum_items :: "(container_key \<times> kum_ContainerMetrics) list" where
  \<comment> \<open>What \<open>query_metrics\<close> leaves in a new monitor's dict on \<open>example_memory_schedule\<close>.\<close>
  "example_kum_items =
     [((''prod'', ''api'', ''deploy''),
       (kum_new_ContainerMetrics (''prod'', ''api'', ''deploy''))
         \<lparr>kum_memory_request := 500 * 1024 ^ 2, kum_max_memory_usage := 100 * 1024 ^ 2\<rparr>),
      ((''prod'', ''worker'', ''deploy''),
       (kum_new_ContainerMetrics (''prod'', ''worker'', ''deploy''))
         \<lparr>kum_memory_request := 300 * 1024 ^ 2, kum_max_memory_usage := 350 * 1024 ^ 2\<rparr>)]"

definition example_usage_only_schedule :: "(memory_query \<times> time_series) list" where
  \<comment> \<open>The container \<open>cache\<close> is in the answer of the peak usage query and in no other.\<close>
  "example_usage_only_schedule =
     [(Memory_request, int_series ''api'' [500 * 1024 ^ 2]),
      (Max_memory_usage, int_series ''cache'' [64 * 1024 ^ 2])]"

definition example_usage_only_items :: "(container_key \<times> ContainerMetrics) list" where
  "example_usage_only_items =
     [((''prod'', ''api'', ''deploy''),
       (new_ContainerMetrics (''prod'', ''api'', ''deploy''))
         \<lparr>memory_request := 500 * 1024 ^ 2, unutilized_memory := 500 * 1024 ^ 2\<rparr>),
      ((''prod'', ''cache'', ''deploy''),
       (new_ContainerMetrics (''prod'', ''cache'', ''deploy''))
         \<lparr>max_memory_usage := 64 * 1024 ^ 2\<rparr>)]"

definition example_request_only_schedule :: "(cpu_query \<times> time_series) list" where
  \<comment> \<open>The container \<open>cache\<close> is in the answer of the peak usage query and in no other.\<close>
  "example_request_only_schedule =
     [(Cpu_request, double_series ''api'' [2]),
      (Max_cpu_usage, double_series ''cache'' [1 / 4])]"

definition example_request_only_items :: "(container_key \<times> ContainerMetrics) list" where
  "example_request_only_items =
     [((''prod'', ''api'', ''deploy''),
       (new_ContainerMetrics (''prod'', ''api'', ''deploy''))
         \<lparr>cpu_request := 2, unutilized_cpu := 2\<rparr>),
      ((''prod'', ''cache'', ''deploy''),
       (new_ContainerMetrics (''prod'', ''cache'', ''deploy''))
         \<lparr>max_cpu_usage := 1 / 4\<rparr>)]"

section \<open>Facts about the Python operations\<close>

lemma py_int_gt_iff:
  assumes "0 \<le> n"
  shows "n < py_int x \<longleftrightarrow> real_of_int n + 1 \<le> x"
proof (cases "0 \<le> x")
  case True
  then have "py_int x = \<lfloor>x\<rfloor>" by (simp add: py_int_def)
  moreover have "n < \<lfloor>x\<rfloor> \<longleftrightarrow> n + 1 \<le> \<lfloor>x\<rfloor>" by linarith
  moreover have "n + 1 \<le> \<lfloor>x\<rfloor> \<longleftrightarrow> real_of_int (n + 1) \<le> x" by (rule le_floor_iff)
  ultimately show ?thesis by simp
next
  case False
  then have c: "py_int x = \<lceil>x\<rceil>" by (simp add: py_int_def)
  from False have "\<lceil>x\<rceil> \<le> 0" by (simp add: ceiling_le_iff)
  with assms have "\<not> n < py_int x" unfolding c by linarith
  moreover from False assms have "\<not> real_of_int n + 1 \<le> x" by linarith
  ultimately show ?thesis by blast
qed

lemma sort_reverse_eq_Nil [simp]: "sort_reverse key xs = [] \<longleftrightarrow> xs = []"
proof -
  have "length (sort_reverse key xs) = length xs" by (simp add: sort_reverse_def)
  then show ?thesis by (metis length_0_conv)
qed

section \<open>The formatter\<close>

subsection \<open>Colours\<close>

lemma percentage_color:
  "color_of (percentage_gradient v) =
     (if v < 3 / 10 then Red else if v < 6 / 10 then Yellow else Green)"
  by (simp add: percentage_gradient_def Let_def)

lemma memory_color:
  "color_of (memory_bytes_gradient b) =
     (if 200 < py_int (b / 1024 ^ 2) then Red
      else if 100 < py_int (b / 1024 ^ 2) then Yellow else Green)"
  by (simp add: memory_bytes_gradient_def Let_def)

lemma cpu_color:
  "color_of (cpu_gradient c) =
     (if 1000 < py_int (c * 1000) then Red
      else if 100 < py_int (c * 1000) then Yellow else Green)"
  by (simp add: cpu_gradient_def Let_def)

lemma whole_mb_gt_200: "200 < py_int (b / 1024 ^ 2) \<longleftrightarrow> 201 * 1024 ^ 2 \<le> b"
  by (simp add: py_int_gt_iff pos_le_divide_eq)

lemma whole_mb_gt_100: "100 < py_int (b / 1024 ^ 2) \<longleftrightarrow> 101 * 1024 ^ 2 \<le> b"
  by (simp add: py_int_gt_iff pos_le_divide_eq)

text \<open>
  C7, as the code has it. The utilization tiers are the claimed ones: below 0.3 red, from
  0.3 and below 0.6 yellow, from 0.6 green. The memory and CPU tiers are decided on the
  value truncated to a whole number of megabytes (\<open>int(value / 1024 ** 2)\<close>) or of millicores
  (\<open>int(value * 1000)\<close>): red when that whole number exceeds 200 (1000 for CPU), yellow when
  it exceeds 100, green otherwise. In bytes, memory is red from 201 MB, yellow from 101 MB
  and below 201 MB, green below 101 MB, a megabyte being \<open>1024\<^sup>2\<close> bytes.
\<close>

theorem gradient_tiers:
  "(color_of (percentage_gradient v) = Red \<longleftrightarrow> v < 3 / 10) \<and>
   (color_of (percentage_gradient v) = Yellow \<longleftrightarrow> 3 / 10 \<le> v \<and> v < 6 / 10) \<and>
   (color_of (percentage_gradient v) = Green \<longleftrightarrow> 6 / 10 \<le> v) \<and>
   (color_of (memory_bytes_gradient b) = Red \<longleftrightarrow> 200 < py_int (b / 1024 ^ 2)) \<and>
   (color_of (memory_bytes_gradient b) = Yellow \<longleftrightarrow>
      100 < py_int (b / 1024 ^ 2) \<and> py_int (b / 1024 ^ 2) \<le> 200) \<and>
   (color_of (memory_bytes_gradient b) = Green \<longleftrightarrow> py_int (b / 1024 ^ 2) \<le> 100) \<and>
   (color_of (memory_bytes_gradient b) = Red \<longleftrightarrow> 201 * 1024 ^ 2 \<le> b) \<and>
   (color_of (memory_bytes_gradient b) = Yellow \<longleftrightarrow> 101 * 1024 ^ 2 \<le> b \<and> b < 201 * 1024 ^ 2) \<and>
   (color_of (memory_bytes_gradient b) = Green \<longleftrightarrow> b < 101 * 1024 ^ 2) \<and>
   (color_of (cpu_gradient c) = Red \<longleftrightarrow> 1000 < py_int (c * 1000)) \<and>
   (color_of (cpu_gradient c) = Yellow \<longleftrightarrow>
      100 < py_int (c * 1000) \<and> py_int (c * 1000) \<le> 1000) \<and>
   (color_of (cpu_gradient c) = Green \<longleftrightarrow> py_int (c * 1000) \<le> 100)"
proof -
  have p: "(color_of (percentage_gradient v) = Red \<longleftrightarrow> v < 3 / 10) \<and>
   (color_of (percentage_gradient v) = Yellow \<longleftrightarrow> 3 / 10 \<le> v \<and> v < 6 / 10) \<and>
   (color_of (percentage_gradient v) = Green \<longleftrightarrow> 6 / 10 \<le> v)"
    unfolding percentage_color by auto
  have m: "(color_of (memory_bytes_gradient b) = Red \<longleftrightarrow> 200 < py_int (b / 1024 ^ 2)) \<and>
   (color_of (memory_bytes_gradient b) = Yellow \<longleftrightarrow>
      100 < py_int (b / 1024 ^ 2) \<and> py_int (b / 1024 ^ 2) \<le> 200) \<and>
   (color_of (memory_bytes_gradient b) = Green \<longleftrightarrow> py_int (b / 1024 ^ 2) \<le> 100)"
    unfolding memory_color by auto
  have m': "(color_of (memory_bytes_gradient b) = Red \<longleftrightarrow> 201 * 1024 ^ 2 \<le> b) \<and>
   (color_of (memory_bytes_gradient b) = Yellow \<longleftrightarrow> 101 * 1024 ^ 2 \<le> b \<and> b < 201 * 1024 ^ 2) \<and>
   (color_of (memory_bytes_gradient b) = Green \<longleftrightarrow> b < 101 * 1024 ^ 2)"
    unfolding memory_color whole_mb_gt_200 whole_mb_gt_100 by auto
  have c: "(color_of (cpu_gradient c) = Red \<longleftrightarrow> 1000 < py_int (c * 1000)) \<and>
   (color_of (cpu_gradient c) = Yellow \<longleftrightarrow>
      100 < py_int (c * 1000) \<and> py_int (c * 1000) \<le> 1000) \<and>
   (color_of (cpu_gradient c) = Green \<longleftrightarrow> py_int (c * 1000) \<le> 100)"
    unfolding cpu_color by auto
  from p m m' c show ?thesis by blast
qed

text \<open>
  The boundary values of C7, through the theorem: exactly 0.3 is yellow and exactly 0.6 is
  green; exactly 200 MB is yellow and exactly 100 MB is green; exactly 1000 millicores (one
  core) is yellow.
\<close>

theorem gradient_tiers_witness:
  "color_of (percentage_gradient (3 / 10)) = Yellow \<and>
   color_of (percentage_gradient (6 / 10)) = Green \<and>
   color_of (memory_bytes_gradient (200 * 1024 ^ 2)) = Yellow \<and>
   color_of (memory_bytes_gradient (100 * 1024 ^ 2)) = Green \<and>
   color_of (cpu_gradient 1) = Yellow"
  using gradient_tiers [of "3 / 10" "200 * 1024 ^ 2" 1]
    gradient_tiers [of "6 / 10" "100 * 1024 ^ 2" 1]
  by (simp add: py_int_def)

text \<open>
  C7 as stated fails between the whole numbers: 200.5 MB of unutilized memory is more than
  200 MB and 1.0005 cores are more than 1000 millicores, and both are yellow, not red.
\<close>

theorem gradient_tiers_counterexample:
  "(200 * 1024 ^ 2 :: real) < 200 * 1024 ^ 2 + 524288 \<and>
   color_of (memory_bytes_gradient (200 * 1024 ^ 2 + 524288)) = Yellow \<and>
   (1000 :: real) < 2001 / 2000 * 1000 \<and>
   color_of (cpu_gradient (2001 / 2000)) = Yellow"
  by (simp add: memory_color cpu_color py_int_gt_iff)

subsection \<open>An empty list, and the csv format\<close>

lemma format_memory_empty: "format_memory_metrics_as_table [] = Inl ZeroDivisionError"
  by (simp add: format_memory_metrics_as_table_def sort_reverse_def py_truediv_def)

lemma format_cpu_empty: "format_cpu_metrics_as_table [] = Inl ZeroDivisionError"
  by (simp add: format_cpu_metrics_as_table_def sort_reverse_def py_truediv_def)

lemma format_memory_nonempty:
  "metrics \<noteq> [] \<Longrightarrow> \<not> isl (format_memory_metrics_as_table metrics)"
  by (simp add: format_memory_metrics_as_table_def py_truediv_def Let_def)

lemma format_cpu_nonempty:
  "metrics \<noteq> [] \<Longrightarrow> \<not> isl (format_cpu_metrics_as_table metrics)"
  by (simp add: format_cpu_metrics_as_table_def py_truediv_def Let_def)

lemma example_metrics_nonempty: "example_metrics \<noteq> []"
  by (simp add: example_metrics_def)

text \<open>
  C6, as the code has it: neither table formatter has a guard for the empty list. Each
  raises exactly one error, \<open>ZeroDivisionError\<close> from the division by \<open>len(metrics)\<close>, and
  raises it exactly when the list is empty.
\<close>

theorem table_of_empty_list_raises_ZeroDivisionError:
  "(format_memory_metrics_as_table metrics = Inl e \<longleftrightarrow> metrics = [] \<and> e = ZeroDivisionError) \<and>
   (format_cpu_metrics_as_table metrics = Inl e \<longleftrightarrow> metrics = [] \<and> e = ZeroDivisionError)"
proof (cases "metrics = []")
  case True
  then show ?thesis by (auto simp: format_memory_empty format_cpu_empty)
next
  case False
  from format_memory_nonempty [OF False] format_cpu_nonempty [OF False] False
  show ?thesis by auto
qed

text \<open>C6's theorem on a list of two records: neither formatter raises.\<close>

theorem table_of_empty_list_raises_ZeroDivisionError_witness:
  "format_memory_metrics_as_table example_metrics \<noteq> Inl ZeroDivisionError \<and>
   format_cpu_metrics_as_table example_metrics \<noteq> Inl ZeroDivisionError"
  using table_of_empty_list_raises_ZeroDivisionError [of example_metrics ZeroDivisionError]
    example_metrics_nonempty
  by simp

text \<open>
  C6 as stated fails on the empty list: what both formatters raise there is the arithmetic
  fault itself.
\<close>

theorem no_data_error_counterexample:
  "format_memory_metrics_as_table [] = Inl ZeroDivisionError \<and>
   format_cpu_metrics_as_table [] = Inl ZeroDivisionError"
  by (simp add: format_memory_empty format_cpu_empty)

text \<open>
  C8, as the code has it: for the csv format \<open>format_metrics\<close> falls through both branches
  and returns \<open>None\<close>, for every metric type and every list; it raises nothing.
\<close>

theorem csv_returns_None: "format_metrics metric_type Csv metrics = Inr PyNone"
  by (simp add: format_metrics_def)

text \<open>
  C8 as stated fails: on the two example records the csv format raises no error and
  returns \<open>None\<close>.
\<close>

theorem csv_unsupported_error_counterexample:
  "format_metrics Memory Csv example_metrics = Inr PyNone \<and>
   \<not> isl (format_metrics Memory Csv example_metrics)"
  by (simp add: format_metrics_def)

section \<open>The dict and the loops over it\<close>

lemma items_lookup: "(k, m) \<in> set (DAList.impl_of d) \<longleftrightarrow> DAList.lookup d k = Some m"
  by (simp add: DAList.lookup.rep_eq)

lemma values_iff:
  "m \<in> set (map snd (DAList.impl_of d)) \<longleftrightarrow> (\<exists>k. DAList.lookup d k = Some m)"
proof -
  have "m \<in> snd ` set (DAList.impl_of d) \<longleftrightarrow> (\<exists>k. (k, m) \<in> set (DAList.impl_of d))"
    by force
  then show ?thesis by (simp add: items_lookup)
qed

lemma lookup_map_entry:
  "DAList.lookup (DAList.map_entry k f d) =
     (DAList.lookup d)(k := map_option f (DAList.lookup d k))"
  by (simp add: DAList.lookup.rep_eq DAList.map_entry.rep_eq map_of_map_entry fun_eq_iff
        split: option.splits)

lemma drop_overprovisioner_lookup:
  assumes "distinct (map fst items)"
    and "\<forall>(k, m) \<in> set items. DAList.lookup d k = Some m"
  shows "DAList.lookup (drop_overprovisioner name derive items d) k =
    (case DAList.lookup d k of
       None \<Rightarrow> None
     | Some m \<Rightarrow>
         if k \<in> fst ` set items
         then (if sublist ''overprovisioner'' (name m) then None else Some (derive m))
         else Some m)"
  using assms
proof (induction items arbitrary: d)
  case Nil
  then show ?case by (simp split: option.splits)
next
  case (Cons p items)
  obtain k0 m0 where p: "p = (k0, m0)" by (cases p)
  from Cons.prems p have k0: "k0 \<notin> fst ` set items" and dist: "distinct (map fst items)"
    and l0: "DAList.lookup d k0 = Some m0"
    and rest: "\<forall>(k, m) \<in> set items. DAList.lookup d k = Some m"
    by auto
  let ?d' = "if sublist ''overprovisioner'' (name m0) then DAList.delete k0 d
             else DAList.map_entry k0 derive d"
  have other: "\<And>k. k \<noteq> k0 \<Longrightarrow> DAList.lookup ?d' k = DAList.lookup d k"
    by (simp add: lookup_map_entry)
  have rest': "\<forall>(k, m) \<in> set items. DAList.lookup ?d' k = Some m"
  proof (clarify)
    fix k m assume km: "(k, m) \<in> set items"
    with k0 have "k \<noteq> k0" by force
    with other rest km show "DAList.lookup ?d' k = Some m" by auto
  qed
  have step: "drop_overprovisioner name derive (p # items) d =
                drop_overprovisioner name derive items ?d'"
    by (simp add: p)
  have IH: "DAList.lookup (drop_overprovisioner name derive items ?d') k =
    (case DAList.lookup ?d' k of
       None \<Rightarrow> None
     | Some m \<Rightarrow>
         if k \<in> fst ` set items
         then (if sublist ''overprovisioner'' (name m) then None else Some (derive m))
         else Some m)"
    by (rule Cons.IH [OF dist rest'])
  show ?case
  proof (cases "k = k0")
    case True
    with k0 l0 show ?thesis
      unfolding step IH by (simp add: p lookup_map_entry)
  next
    case False
    with other [OF False] show ?thesis
      unfolding step IH by (simp add: p split: option.splits)
  qed
qed

lemma drop_overprovisioner_all:
  "DAList.lookup (drop_overprovisioner name derive (DAList.impl_of d) d) k =
    (case DAList.lookup d k of
       None \<Rightarrow> None
     | Some m \<Rightarrow> if sublist ''overprovisioner'' (name m) then None else Some (derive m))"
proof -
  have "\<forall>(k, m) \<in> set (DAList.impl_of d). DAList.lookup d k = Some m"
    by (auto simp: items_lookup)
  then have "DAList.lookup (drop_overprovisioner name derive (DAList.impl_of d) d) k =
    (case DAList.lookup d k of
       None \<Rightarrow> None
     | Some m \<Rightarrow>
         if k \<in> fst ` set (DAList.impl_of d)
         then (if sublist ''overprovisioner'' (name m) then None else Some (derive m))
         else Some m)"
    by (intro drop_overprovisioner_lookup) auto
  moreover have "DAList.lookup d k = Some m \<Longrightarrow> k \<in> fst ` set (DAList.impl_of d)" for m
    using items_lookup [of k m d] by force
  ultimately show ?thesis by (auto split: option.splits)
qed

lemma drop_overprovisioner_entry:
  assumes "DAList.lookup (drop_overprovisioner name derive (DAList.impl_of d) d) k = Some m"
  obtains m0 where "DAList.lookup d k = Some m0"
    and "\<not> sublist ''overprovisioner'' (name m0)" and "m = derive m0"
  using assms unfolding drop_overprovisioner_all
  by (auto split: option.splits if_splits)

lemma write_field_lookup:
  assumes "write_field new a s d = Inr d'"
  shows "\<exists>f. a = Inr f \<and>
           DAList.lookup d' =
             (DAList.lookup d)(container_key s \<mapsto>
                f (case DAList.lookup d (container_key s) of
                     None \<Rightarrow> new (container_key s) | Some m \<Rightarrow> m))"
  using assms
  by (auto simp: write_field_def upsert_container_def lookup_map_entry fun_eq_iff
           split: sum.splits option.splits)

lemma gather_invariant:
  assumes "gather h schedule d0 = Inr d"
    and "I W d0"
    and "\<And>q s d d' W. I W d \<Longrightarrow> h q s d = Inr d' \<Longrightarrow> I (insert (q, container_key s) W) d'"
  shows "I (W \<union> (\<lambda>(q, s). (q, container_key s)) ` set schedule) d"
  using assms(1,2)
proof (induction schedule arbitrary: d0 W)
  case Nil
  then show ?case by simp
next
  case (Cons x schedule)
  obtain q s where x: "x = (q, s)" by (cases x)
  from Cons.prems(1) x obtain d1 where h: "h q s d0 = Inr d1"
    and g: "gather h schedule d1 = Inr d"
    by (auto split: sum.splits)
  from assms(3) [OF Cons.prems(2) h] have "I (insert (q, container_key s) W) d1" .
  from Cons.IH [OF g this] show ?case by (simp add: x Un_commute insert_commute)
qed

lemma gather_isl:
  assumes "\<And>q s d. isl (h q s d) \<longleftrightarrow> points s = []"
  shows "isl (gather h schedule d) \<longleftrightarrow> (\<exists>(q, s) \<in> set schedule. points s = [])"
proof (induction schedule arbitrary: d)
  case Nil
  show ?case by simp
next
  case (Cons x schedule)
  obtain q s where x: "x = (q, s)" by (cases x)
  show ?case
  proof (cases "h q s d")
    case (Inl e)
    with assms [of q s d] show ?thesis by (simp add: x)
  next
    case (Inr d')
    with assms [of q s d] Cons.IH [of d'] show ?thesis by (simp add: x)
  qed
qed

section \<open>The aggregation calls\<close>

lemma memory_coroutine_write_field:
  "memory_coroutine q s d = write_field new_ContainerMetrics (memory_assignment q (points s)) s d"
  by (cases q)
     (simp_all add: write_field_def query_avg_memory_request_utilization_def
        query_max_memory_usage_def query_avg_memory_usage_def query_memory_request_def
        split: sum.splits)

lemma cpu_coroutine_write_field:
  "cpu_coroutine q s d = write_field new_ContainerMetrics (cpu_assignment q (points s)) s d"
  by (cases q)
     (simp_all add: write_field_def query_avg_cpu_request_utilization_def
        query_max_cpu_usage_def query_avg_cpu_usage_def query_cpu_request_def
        split: sum.splits)

lemma py_max_key_isl [simp]: "isl (py_max_key key ps) \<longleftrightarrow> ps = []"
  by (cases ps) simp_all

lemma statistics_mean_isl [simp]: "isl (statistics_mean xs) \<longleftrightarrow> xs = []"
  by (simp add: statistics_mean_def)

lemma py_getitem0_isl [simp]: "isl (py_getitem0 ps) \<longleftrightarrow> ps = []"
  by (cases ps) (simp_all add: py_getitem0_def)

lemma isl_map_sum [simp]: "isl (map_sum f g x) \<longleftrightarrow> isl x"
  by (cases x) simp_all

lemma write_field_isl [simp]: "isl (write_field new a s d) \<longleftrightarrow> isl a"
  by (cases a) (simp_all add: write_field_def)

lemma memory_coroutine_isl: "isl (memory_coroutine q s d) \<longleftrightarrow> points s = []"
  unfolding memory_coroutine_write_field by (cases q) simp_all

lemma cpu_coroutine_isl: "isl (cpu_coroutine q s d) \<longleftrightarrow> points s = []"
  unfolding cpu_coroutine_write_field by (cases q) simp_all

lemma map_sum_eq_Inr: "map_sum h g x = Inr f \<longleftrightarrow> (\<exists>v. x = Inr v \<and> f = g v)"
  by (cases x) auto

lemma memory_assignment_other_fields:
  assumes "memory_assignment q ps = Inr f"
  shows "cpu_field_default cq (f m) = cpu_field_default cq m"
    and "unutilized_cpu (f m) = unutilized_cpu m"
    and "unutilized_memory (f m) = unutilized_memory m"
    and "q' \<noteq> q \<Longrightarrow> memory_field_default q' (f m) = memory_field_default q' m"
    and "container_name (f m) = container_name m"
proof -
  from assms show "cpu_field_default cq (f m) = cpu_field_default cq m"
    by (cases q; cases cq) (auto simp: map_sum_eq_Inr)
  from assms show "unutilized_cpu (f m) = unutilized_cpu m"
    by (cases q) (auto simp: map_sum_eq_Inr)
  from assms show "unutilized_memory (f m) = unutilized_memory m"
    by (cases q) (auto simp: map_sum_eq_Inr)
  from assms show "q' \<noteq> q \<Longrightarrow> memory_field_default q' (f m) = memory_field_default q' m"
    by (cases q; cases q') (auto simp: map_sum_eq_Inr)
  from assms show "container_name (f m) = container_name m"
    by (cases q) (auto simp: map_sum_eq_Inr)
qed

lemma cpu_assignment_other_fields:
  assumes "cpu_assignment q ps = Inr f"
  shows "memory_field_default mq (f m) = memory_field_default mq m"
    and "unutilized_memory (f m) = unutilized_memory m"
    and "unutilized_cpu (f m) = unutilized_cpu m"
    and "q' \<noteq> q \<Longrightarrow> cpu_field_default q' (f m) = cpu_field_default q' m"
    and "container_name (f m) = container_name m"
proof -
  from assms show "memory_field_default mq (f m) = memory_field_default mq m"
    by (cases q; cases mq) (auto simp: map_sum_eq_Inr)
  from assms show "unutilized_memory (f m) = unutilized_memory m"
    by (cases q) (auto simp: map_sum_eq_Inr)
  from assms show "unutilized_cpu (f m) = unutilized_cpu m"
    by (cases q) (auto simp: map_sum_eq_Inr)
  from assms show "q' \<noteq> q \<Longrightarrow> cpu_field_default q' (f m) = cpu_field_default q' m"
    by (cases q; cases q') (auto simp: map_sum_eq_Inr)
  from assms show "container_name (f m) = container_name m"
    by (cases q) (auto simp: map_sum_eq_Inr)
qed

lemma new_ContainerMetrics_defaults:
  "unutilized_cpu (new_ContainerMetrics k) = 0"
  "unutilized_memory (new_ContainerMetrics k) = 0"
  "memory_field_default q (new_ContainerMetrics k)"
  "cpu_field_default cq (new_ContainerMetrics k)"
  by (cases q; simp add: new_ContainerMetrics_def split: prod.splits;
      cases cq; simp add: new_ContainerMetrics_def split: prod.splits)+

lemma created_by_memory_callD:
  assumes "created_by_memory_call self W d" "DAList.lookup d k = Some m"
    "DAList.lookup self k = None"
  shows "(\<forall>q. cpu_field_default q m) \<and> unutilized_cpu m = 0 \<and> unutilized_memory m = 0 \<and>
        (\<forall>q. memory_field_default q m \<or> (q, k) \<in> W)"
  using assms unfolding created_by_memory_call_def by blast

lemma created_by_cpu_callD:
  assumes "created_by_cpu_call self W d" "DAList.lookup d k = Some m"
    "DAList.lookup self k = None"
  shows "(\<forall>q. memory_field_default q m) \<and> unutilized_memory m = 0 \<and> unutilized_cpu m = 0 \<and>
        (\<forall>q. cpu_field_default q m \<or> (q, k) \<in> W)"
  using assms unfolding created_by_cpu_call_def by blast

lemma created_by_memory_call_step:
  assumes inv: "created_by_memory_call self W d"
    and h: "memory_coroutine q s d = Inr d'"
  shows "created_by_memory_call self (insert (q, container_key s) W) d'"
proof -
  from h write_field_lookup [of new_ContainerMetrics "memory_assignment q (points s)" s d d']
  obtain f where f: "memory_assignment q (points s) = Inr f"
    and l: "DAList.lookup d' =
             (DAList.lookup d)(container_key s \<mapsto>
                f (case DAList.lookup d (container_key s) of
                     None \<Rightarrow> new_ContainerMetrics (container_key s) | Some m \<Rightarrow> m))"
    by (auto simp: memory_coroutine_write_field)
  show ?thesis
    unfolding created_by_memory_call_def
  proof (intro allI impI)
    fix k m
    assume km: "DAList.lookup d' k = Some m" and fresh: "DAList.lookup self k = None"
    show "(\<forall>q. cpu_field_default q m) \<and> unutilized_cpu m = 0 \<and> unutilized_memory m = 0 \<and>
        (\<forall>q'. memory_field_default q' m \<or> (q', k) \<in> insert (q, container_key s) W)"
    proof (cases "k = container_key s")
      case False
      with km l have "DAList.lookup d k = Some m" by simp
      from created_by_memory_callD [OF inv this fresh] show ?thesis by blast
    next
      case True
      define m0 where "m0 = (case DAList.lookup d (container_key s) of
                     None \<Rightarrow> new_ContainerMetrics (container_key s) | Some m \<Rightarrow> m)"
      from km l True have m: "m = f m0" by (simp add: m0_def)
      have m0: "(\<forall>q. cpu_field_default q m0) \<and> unutilized_cpu m0 = 0 \<and>
        unutilized_memory m0 = 0 \<and> (\<forall>q'. memory_field_default q' m0 \<or> (q', k) \<in> W)"
      proof (cases "DAList.lookup d (container_key s)")
        case None
        then show ?thesis by (simp add: m0_def new_ContainerMetrics_defaults)
      next
        case (Some a)
        from fresh True have "DAList.lookup self (container_key s) = None" by simp
        from created_by_memory_callD [OF inv Some this] True show ?thesis
          by (simp add: m0_def Some)
      qed
      show ?thesis
      proof (intro conjI allI)
        fix q'
        show "memory_field_default q' m \<or> (q', k) \<in> insert (q, container_key s) W"
        proof (cases "q' = q")
          case True
          with \<open>k = container_key s\<close> show ?thesis by simp
        next
          case False
          with m0 memory_assignment_other_fields(4) [OF f False, of m0] m show ?thesis by auto
        qed
      qed (use m m0 memory_assignment_other_fields [OF f] in simp_all)
    qed
  qed
qed

lemma created_by_cpu_call_step:
  assumes inv: "created_by_cpu_call self W d"
    and h: "cpu_coroutine q s d = Inr d'"
  shows "created_by_cpu_call self (insert (q, container_key s) W) d'"
proof -
  from h write_field_lookup [of new_ContainerMetrics "cpu_assignment q (points s)" s d d']
  obtain f where f: "cpu_assignment q (points s) = Inr f"
    and l: "DAList.lookup d' =
             (DAList.lookup d)(container_key s \<mapsto>
                f (case DAList.lookup d (container_key s) of
                     None \<Rightarrow> new_ContainerMetrics (container_key s) | Some m \<Rightarrow> m))"
    by (auto simp: cpu_coroutine_write_field)
  show ?thesis
    unfolding created_by_cpu_call_def
  proof (intro allI impI)
    fix k m
    assume km: "DAList.lookup d' k = Some m" and fresh: "DAList.lookup self k = None"
    show "(\<forall>q. memory_field_default q m) \<and> unutilized_memory m = 0 \<and> unutilized_cpu m = 0 \<and>
        (\<forall>q'. cpu_field_default q' m \<or> (q', k) \<in> insert (q, container_key s) W)"
    proof (cases "k = container_key s")
      case False
      with km l have "DAList.lookup d k = Some m" by simp
      from created_by_cpu_callD [OF inv this fresh] show ?thesis by blast
    next
      case True
      define m0 where "m0 = (case DAList.lookup d (container_key s) of
                     None \<Rightarrow> new_ContainerMetrics (container_key s) | Some m \<Rightarrow> m)"
      from km l True have m: "m = f m0" by (simp add: m0_def)
      have m0: "(\<forall>q. memory_field_default q m0) \<and> unutilized_memory m0 = 0 \<and>
        unutilized_cpu m0 = 0 \<and> (\<forall>q'. cpu_field_default q' m0 \<or> (q', k) \<in> W)"
      proof (cases "DAList.lookup d (container_key s)")
        case None
        then show ?thesis by (simp add: m0_def new_ContainerMetrics_defaults)
      next
        case (Some a)
        from fresh True have "DAList.lookup self (container_key s) = None" by simp
        from created_by_cpu_callD [OF inv Some this] True show ?thesis
          by (simp add: m0_def Some)
      qed
      show ?thesis
      proof (intro conjI allI)
        fix q'
        show "cpu_field_default q' m \<or> (q', k) \<in> insert (q, container_key s) W"
        proof (cases "q' = q")
          case True
          with \<open>k = container_key s\<close> show ?thesis by simp
        next
          case False
          with m0 cpu_assignment_other_fields(4) [OF f False, of m0] m show ?thesis by auto
        qed
      qed (use m m0 cpu_assignment_other_fields [OF f] in simp_all)
    qed
  qed
qed

lemma gather_memory_created:
  assumes "gather memory_coroutine schedule self = Inr d"
  shows "created_by_memory_call self ((\<lambda>(q, s). (q, container_key s)) ` set schedule) d"
proof -
  have "created_by_memory_call self {} self"
    by (simp add: created_by_memory_call_def)
  from gather_invariant [of memory_coroutine schedule self d "created_by_memory_call self" "{}",
      OF assms this created_by_memory_call_step]
  show ?thesis by simp
qed

lemma gather_cpu_created:
  assumes "gather cpu_coroutine schedule self = Inr d"
  shows "created_by_cpu_call self ((\<lambda>(q, s). (q, container_key s)) ` set schedule) d"
proof -
  have "created_by_cpu_call self {} self"
    by (simp add: created_by_cpu_call_def)
  from gather_invariant [of cpu_coroutine schedule self d "created_by_cpu_call self" "{}",
      OF assms this created_by_cpu_call_step]
  show ?thesis by simp
qed

lemma query_memory_utilization_Inr:
  assumes "query_memory_utilization schedule self = Inr (result, self')"
  obtains d where "gather memory_coroutine schedule self = Inr d"
    and "self' = drop_overprovisioner container_name set_unutilized_memory (DAList.impl_of d) d"
    and "result = map snd (DAList.impl_of self')"
  using assms
  by (auto simp: query_memory_utilization_def Let_def split: sum.splits)

lemma query_cpu_utilization_Inr:
  assumes "query_cpu_utilization schedule self = Inr (result, self')"
  obtains d where "gather cpu_coroutine schedule self = Inr d"
    and "self' = drop_overprovisioner container_name set_unutilized_cpu (DAList.impl_of d) d"
    and "result = map snd (DAList.impl_of self')"
  using assms
  by (auto simp: query_cpu_utilization_def Let_def split: sum.splits)

lemma memory_result_member:
  assumes "query_memory_utilization schedule self = Inr (result, self')"
    and "m \<in> set result"
  obtains d k m0 where "gather memory_coroutine schedule self = Inr d"
    and "DAList.lookup d k = Some m0" and "DAList.lookup self' k = Some m"
    and "\<not> sublist ''overprovisioner'' (container_name m0)"
    and "m = set_unutilized_memory m0"
proof -
  from query_memory_utilization_Inr [OF assms(1)] obtain d where
    d: "gather memory_coroutine schedule self = Inr d"
    and s: "self' = drop_overprovisioner container_name set_unutilized_memory (DAList.impl_of d) d"
    and r: "result = map snd (DAList.impl_of self')"
    by blast
  from assms(2) r obtain k where k: "DAList.lookup self' k = Some m"
    by (auto simp only: values_iff)
  from k [unfolded s] obtain m0 where "DAList.lookup d k = Some m0"
    and "\<not> sublist ''overprovisioner'' (container_name m0)"
    and "m = set_unutilized_memory m0"
    by (rule drop_overprovisioner_entry)
  with d k that show ?thesis by blast
qed

lemma cpu_result_member:
  assumes "query_cpu_utilization schedule self = Inr (result, self')"
    and "m \<in> set result"
  obtains d k m0 where "gather cpu_coroutine schedule self = Inr d"
    and "DAList.lookup d k = Some m0" and "DAList.lookup self' k = Some m"
    and "\<not> sublist ''overprovisioner'' (container_name m0)"
    and "m = set_unutilized_cpu m0"
proof -
  from query_cpu_utilization_Inr [OF assms(1)] obtain d where
    d: "gather cpu_coroutine schedule self = Inr d"
    and s: "self' = drop_overprovisioner container_name set_unutilized_cpu (DAList.impl_of d) d"
    and r: "result = map snd (DAList.impl_of self')"
    by blast
  from assms(2) r obtain k where k: "DAList.lookup self' k = Some m"
    by (auto simp only: values_iff)
  from k [unfolded s] obtain m0 where "DAList.lookup d k = Some m0"
    and "\<not> sublist ''overprovisioner'' (container_name m0)"
    and "m = set_unutilized_cpu m0"
    by (rule drop_overprovisioner_entry)
  with d k that show ?thesis by blast
qed

subsection \<open>The example runs\<close>

lemmas dict_eval =
  DAList.lookup.rep_eq DAList.update.rep_eq DAList.map_entry.rep_eq DAList.delete.rep_eq
  DAList.empty.rep_eq AList.delete_eq DAList.alist_eq_iff DAList.Alist_inverse sublist_code

lemma example_memory_run:
  "query_memory_utilization example_memory_schedule DAList.empty =
     Inr (map snd example_memory_items, DAList.Alist example_memory_items)"
  by (simp add: query_memory_utilization_def example_memory_schedule_def int_series_def
        query_memory_request_def query_max_memory_usage_def upsert_container_def
        container_key_def py_getitem0_def new_ContainerMetrics_def set_unutilized_memory_def
        example_memory_items_def dict_eval Let_def)

lemma example_cpu_run:
  "query_cpu_utilization example_cpu_schedule DAList.empty =
     Inr (map snd example_cpu_items, DAList.Alist example_cpu_items)"
  by (simp add: query_cpu_utilization_def example_cpu_schedule_def double_series_def
        query_cpu_request_def query_max_cpu_usage_def upsert_container_def
        container_key_def py_getitem0_def new_ContainerMetrics_def set_unutilized_cpu_def
        example_cpu_items_def dict_eval Let_def)

lemma example_kum_run:
  "query_metrics example_memory_schedule DAList.empty = Inr (DAList.Alist example_kum_items)"
  by (simp add: query_metrics_def example_memory_schedule_def int_series_def
        kum_query_memory_request_def kum_query_max_memory_usage_def upsert_container_def
        container_key_def py_getitem0_def kum_new_ContainerMetrics_def
        example_kum_items_def dict_eval Let_def)

lemma example_items_impl:
  "DAList.impl_of (DAList.Alist example_memory_items) = example_memory_items"
  "DAList.impl_of (DAList.Alist example_cpu_items) = example_cpu_items"
  "DAList.impl_of (DAList.Alist example_kum_items) = example_kum_items"
  by (simp_all add: DAList.Alist_inverse example_memory_items_def example_cpu_items_def
        example_kum_items_def)

subsection \<open>The derived fields\<close>

lemma set_unutilized_memory_clamped:
  "unutilized_memory (set_unutilized_memory m) =
     max 0 (memory_request (set_unutilized_memory m) - max_memory_usage (set_unutilized_memory m))"
  "0 \<le> unutilized_memory (set_unutilized_memory m)"
  by (simp_all add: set_unutilized_memory_def)

lemma set_unutilized_cpu_clamped:
  "unutilized_cpu (set_unutilized_cpu m) =
     max 0 (cpu_request (set_unutilized_cpu m) - max_cpu_usage (set_unutilized_cpu m))"
  "0 \<le> unutilized_cpu (set_unutilized_cpu m)"
  by (simp_all add: set_unutilized_cpu_def)

lemma memory_call_leaves_cpu_defaults:
  assumes "query_memory_utilization schedule DAList.empty = Inr (result, self')"
    and "m \<in> set result"
  shows "cpu_request m = 0 \<and> max_cpu_usage m = 0 \<and> unutilized_cpu m = 0"
proof -
  from assms obtain d k m0 where d: "gather memory_coroutine schedule DAList.empty = Inr d"
    and l: "DAList.lookup d k = Some m0" and m: "m = set_unutilized_memory m0"
    by (rule memory_result_member)
  have "DAList.lookup DAList.empty k = None" by simp
  from created_by_memory_callD [OF gather_memory_created [OF d] l this]
  have "cpu_field_default Cpu_request m0" "cpu_field_default Max_cpu_usage m0"
    "unutilized_cpu m0 = 0"
    by blast+
  then show ?thesis by (simp add: m set_unutilized_memory_def)
qed

lemma cpu_call_leaves_memory_defaults:
  assumes "query_cpu_utilization schedule DAList.empty = Inr (result, self')"
    and "m \<in> set result"
  shows "memory_request m = 0 \<and> max_memory_usage m = 0 \<and> unutilized_memory m = 0"
proof -
  from assms obtain d k m0 where d: "gather cpu_coroutine schedule DAList.empty = Inr d"
    and l: "DAList.lookup d k = Some m0" and m: "m = set_unutilized_cpu m0"
    by (rule cpu_result_member)
  have "DAList.lookup DAList.empty k = None" by simp
  from created_by_cpu_callD [OF gather_cpu_created [OF d] l this]
  have "memory_field_default Memory_request m0" "memory_field_default Max_memory_usage m0"
    "unutilized_memory m0 = 0"
    by blast+
  then show ?thesis by (simp add: m set_unutilized_cpu_def)
qed

text \<open>
  C1. Every record that \<open>query_memory_utilization\<close> returns has
  \<open>unutilized_memory = max(0, memory_request - max_memory_usage)\<close>, and every record that
  \<open>query_cpu_utilization\<close> returns has \<open>unutilized_cpu = max(0, cpu_request - max_cpu_usage)\<close>,
  whatever the schedule of the four coroutines and whatever the dict held before; neither
  value is negative. On a new client (an empty dict, as the HTTP handler makes one per
  request) the derived field of the other family satisfies its equation too. The property
  \<open>unutilized_memory\<close> of the command-line tool is the same clamped difference.
\<close>

theorem unutilized_is_clamped_difference:
  "(query_memory_utilization schedule self = Inr (result, self') \<longrightarrow> m \<in> set result \<longrightarrow>
      unutilized_memory m = max 0 (memory_request m - max_memory_usage m) \<and>
      0 \<le> unutilized_memory m) \<and>
   (query_cpu_utilization cpu_schedule self = Inr (result, self') \<longrightarrow> m \<in> set result \<longrightarrow>
      unutilized_cpu m = max 0 (cpu_request m - max_cpu_usage m) \<and> 0 \<le> unutilized_cpu m) \<and>
   (query_memory_utilization schedule DAList.empty = Inr (result, self') \<longrightarrow> m \<in> set result \<longrightarrow>
      unutilized_cpu m = max 0 (cpu_request m - max_cpu_usage m) \<and> 0 \<le> unutilized_cpu m) \<and>
   (query_cpu_utilization cpu_schedule DAList.empty = Inr (result, self') \<longrightarrow> m \<in> set result \<longrightarrow>
      unutilized_memory m = max 0 (memory_request m - max_memory_usage m) \<and>
      0 \<le> unutilized_memory m) \<and>
   kum_unutilized_memory r = max 0 (kum_memory_request r - kum_max_memory_usage r) \<and>
   0 \<le> kum_unutilized_memory r"
proof (intro conjI impI)
  assume a: "query_memory_utilization schedule self = Inr (result, self')" "m \<in> set result"
  then obtain m0 where "m = set_unutilized_memory m0"
    by (rule memory_result_member)
  then show "unutilized_memory m = max 0 (memory_request m - max_memory_usage m)"
    and "0 \<le> unutilized_memory m"
    by (simp_all add: set_unutilized_memory_clamped)
next
  assume a: "query_cpu_utilization cpu_schedule self = Inr (result, self')" "m \<in> set result"
  then obtain m0 where "m = set_unutilized_cpu m0"
    by (rule cpu_result_member)
  then show "unutilized_cpu m = max 0 (cpu_request m - max_cpu_usage m)"
    and "0 \<le> unutilized_cpu m"
    by (simp_all add: set_unutilized_cpu_clamped)
next
  assume "query_memory_utilization schedule DAList.empty = Inr (result, self')" "m \<in> set result"
  from memory_call_leaves_cpu_defaults [OF this]
  show "unutilized_cpu m = max 0 (cpu_request m - max_cpu_usage m)" and "0 \<le> unutilized_cpu m"
    by simp_all
next
  assume "query_cpu_utilization cpu_schedule DAList.empty = Inr (result, self')" "m \<in> set result"
  from cpu_call_leaves_memory_defaults [OF this]
  show "unutilized_memory m = max 0 (memory_request m - max_memory_usage m)"
    and "0 \<le> unutilized_memory m"
    by simp_all
qed (simp_all add: kum_unutilized_memory_def)

text \<open>
  C1's theorem on the example: requests of 500 MiB and 300 MiB against peaks of 100 MiB and
  350 MiB give 400 MiB and 0 (clamped).
\<close>

theorem unutilized_is_clamped_difference_witness:
  "query_memory_utilization example_memory_schedule DAList.empty =
     Inr (map snd example_memory_items, DAList.Alist example_memory_items) \<and>
   length example_memory_items = 2 \<and>
   unutilized_memory (snd (example_memory_items ! 0)) = 400 * 1024 ^ 2 \<and>
   unutilized_memory (snd (example_memory_items ! 0)) =
     max 0 (memory_request (snd (example_memory_items ! 0)) -
            max_memory_usage (snd (example_memory_items ! 0))) \<and>
   unutilized_memory (snd (example_memory_items ! 1)) = 0 \<and>
   unutilized_memory (snd (example_memory_items ! 1)) =
     max 0 (memory_request (snd (example_memory_items ! 1)) -
            max_memory_usage (snd (example_memory_items ! 1))) \<and>
   unutilized_cpu (snd (example_memory_items ! 1)) =
     max 0 (cpu_request (snd (example_memory_items ! 1)) -
            max_cpu_usage (snd (example_memory_items ! 1))) \<and>
   query_cpu_utilization example_cpu_schedule DAList.empty =
     Inr (map snd example_cpu_items, DAList.Alist example_cpu_items) \<and>
   unutilized_cpu (snd (example_cpu_items ! 0)) =
     max 0 (cpu_request (snd (example_cpu_items ! 0)) -
            max_cpu_usage (snd (example_cpu_items ! 0))) \<and>
   unutilized_memory (snd (example_cpu_items ! 0)) =
     max 0 (memory_request (snd (example_cpu_items ! 0)) -
            max_memory_usage (snd (example_cpu_items ! 0)))"
proof -
  have len: "length example_memory_items = 2" "length example_cpu_items = 2"
    by (simp_all add: example_memory_items_def example_cpu_items_def)
  then have mem: "snd (example_memory_items ! 0) \<in> set (map snd example_memory_items)"
    "snd (example_memory_items ! 1) \<in> set (map snd example_memory_items)"
    "snd (example_cpu_items ! 0) \<in> set (map snd example_cpu_items)"
    by simp_all
  have v: "unutilized_memory (snd (example_memory_items ! 0)) = 400 * 1024 ^ 2"
    "unutilized_memory (snd (example_memory_items ! 1)) = 0"
    by (simp_all add: example_memory_items_def)
  note t = unutilized_is_clamped_difference
    [of example_memory_schedule DAList.empty "map snd example_memory_items"
       "DAList.Alist example_memory_items" _ example_cpu_schedule]
  note t' = unutilized_is_clamped_difference
    [of example_memory_schedule DAList.empty "map snd example_cpu_items"
       "DAList.Alist example_cpu_items" _ example_cpu_schedule]
  from t [of "snd (example_memory_items ! 0)"] t [of "snd (example_memory_items ! 1)"]
    t' [of "snd (example_cpu_items ! 0)"]
    example_memory_run example_cpu_run mem len v
  show ?thesis by simp
qed

subsection \<open>Overprovisioner containers\<close>

lemma set_sort_reverse [simp]: "set (sort_reverse key xs) = set xs"
  by (simp add: sort_reverse_def)

lemma query_metrics_Inr:
  assumes "query_metrics schedule self = Inr self'"
  obtains d where "gather kum_coroutine schedule self = Inr d"
    and "self' = drop_overprovisioner kum_container_name (\<lambda>metrics. metrics) (DAList.impl_of d) d"
  using assms
  by (auto simp: query_metrics_def split: sum.splits)

lemma query_metrics_no_overprovisioner:
  assumes "query_metrics schedule self = Inr self'"
    and "m \<in> set (map snd (DAList.impl_of self'))"
  shows "\<not> sublist ''overprovisioner'' (kum_container_name m)"
proof -
  from assms(1) obtain d where
    s: "self' = drop_overprovisioner kum_container_name (\<lambda>metrics. metrics) (DAList.impl_of d) d"
    by (rule query_metrics_Inr)
  from assms(2) obtain k where k: "DAList.lookup self' k = Some m"
    by (auto simp only: values_iff)
  from k [unfolded s] obtain m0 where "\<not> sublist ''overprovisioner'' (kum_container_name m0)"
    and "m = m0"
    by (rule drop_overprovisioner_entry)
  then show ?thesis by simp
qed

lemma print_utilization_rows:
  assumes "print_utilization schedule self = Inr table"
  obtains self' where "query_metrics schedule self = Inr self'"
    and "butlast (tabular_data table) =
           map kum_row (sort_reverse kum_unutilized_memory (map snd (DAList.impl_of self')))"
  using assms
  by (auto simp: print_utilization_def Let_def split: sum.splits)

text \<open>
  C3. No record that \<open>query_memory_utilization\<close> or \<open>query_cpu_utilization\<close> returns has a
  container name that contains \<open>overprovisioner\<close>, whatever the schedule and whatever the
  dict held before. The same holds of the dict \<open>query_metrics\<close> of the command-line tool
  leaves, and every row of the table \<open>print_utilization\<close> prints above the \<open>Total\<close> row is the
  row of a record with such a name.
\<close>

theorem overprovisioner_never_in_output:
  "(query_memory_utilization schedule self = Inr (result, self') \<longrightarrow> m \<in> set result \<longrightarrow>
      \<not> sublist ''overprovisioner'' (container_name m)) \<and>
   (query_cpu_utilization cpu_schedule self = Inr (result, self') \<longrightarrow> m \<in> set result \<longrightarrow>
      \<not> sublist ''overprovisioner'' (container_name m)) \<and>
   (query_metrics schedule monitor = Inr monitor' \<longrightarrow>
      r \<in> set (map snd (DAList.impl_of monitor')) \<longrightarrow>
      \<not> sublist ''overprovisioner'' (kum_container_name r)) \<and>
   (print_utilization schedule monitor = Inr table \<longrightarrow>
      (\<exists>rs. butlast (tabular_data table) = map kum_row rs \<and>
            (\<forall>r \<in> set rs. \<not> sublist ''overprovisioner'' (kum_container_name r))))"
proof (intro conjI impI)
  assume "query_memory_utilization schedule self = Inr (result, self')" "m \<in> set result"
  then obtain m0 where "\<not> sublist ''overprovisioner'' (container_name m0)"
    and "m = set_unutilized_memory m0"
    by (rule memory_result_member)
  then show "\<not> sublist ''overprovisioner'' (container_name m)"
    by (simp add: set_unutilized_memory_def)
next
  assume "query_cpu_utilization cpu_schedule self = Inr (result, self')" "m \<in> set result"
  then obtain m0 where "\<not> sublist ''overprovisioner'' (container_name m0)"
    and "m = set_unutilized_cpu m0"
    by (rule cpu_result_member)
  then show "\<not> sublist ''overprovisioner'' (container_name m)"
    by (simp add: set_unutilized_cpu_def)
next
  assume "query_metrics schedule monitor = Inr monitor'"
    "r \<in> set (map snd (DAList.impl_of monitor'))"
  then show "\<not> sublist ''overprovisioner'' (kum_container_name r)"
    by (rule query_metrics_no_overprovisioner)
next
  assume "print_utilization schedule monitor = Inr table"
  then obtain self' where q: "query_metrics schedule monitor = Inr self'"
    and rows: "butlast (tabular_data table) =
           map kum_row (sort_reverse kum_unutilized_memory (map snd (DAList.impl_of self')))"
    by (rule print_utilization_rows)
  have "\<forall>r \<in> set (sort_reverse kum_unutilized_memory (map snd (DAList.impl_of self'))).
          \<not> sublist ''overprovisioner'' (kum_container_name r)"
    using query_metrics_no_overprovisioner [OF q] by simp
  with rows show "\<exists>rs. butlast (tabular_data table) = map kum_row rs \<and>
            (\<forall>r \<in> set rs. \<not> sublist ''overprovisioner'' (kum_container_name r))"
    by blast
qed

lemma example_print_run:
  "print_utilization example_memory_schedule DAList.empty =
     Inr (projr (print_utilization example_memory_schedule DAList.empty))"
proof -
  have "\<not> isl (print_utilization example_memory_schedule DAList.empty)"
    by (simp add: print_utilization_def example_kum_run example_items_impl py_truediv_def
          Let_def)
       (simp add: example_kum_items_def)
  then show ?thesis by (cases "print_utilization example_memory_schedule DAList.empty") auto
qed

text \<open>
  C3's theorem on the example schedules, in which a coroutine body runs on the container
  \<open>cluster-overprovisioner\<close>: the calls return, and the first record returned is the one
  of the container \<open>api\<close>.
\<close>

theorem overprovisioner_never_in_output_witness:
  "query_memory_utilization example_memory_schedule DAList.empty =
     Inr (map snd example_memory_items, DAList.Alist example_memory_items) \<and>
   query_cpu_utilization example_cpu_schedule DAList.empty =
     Inr (map snd example_cpu_items, DAList.Alist example_cpu_items) \<and>
   query_metrics example_memory_schedule DAList.empty = Inr (DAList.Alist example_kum_items) \<and>
   container_name (snd (example_memory_items ! 0)) = ''api'' \<and>
   \<not> sublist ''overprovisioner'' (container_name (snd (example_memory_items ! 0))) \<and>
   \<not> sublist ''overprovisioner'' (container_name (snd (example_cpu_items ! 0))) \<and>
   \<not> sublist ''overprovisioner'' (kum_container_name (snd (example_kum_items ! 0))) \<and>
   print_utilization example_memory_schedule DAList.empty =
     Inr (projr (print_utilization example_memory_schedule DAList.empty)) \<and>
   (\<exists>rs. butlast (tabular_data (projr (print_utilization example_memory_schedule DAList.empty))) =
           map kum_row rs \<and>
         list_all (\<lambda>r. \<not> sublist ''overprovisioner'' (kum_container_name r)) rs)"
proof -
  have mem: "snd (example_memory_items ! 0) \<in> set (map snd example_memory_items)"
    "snd (example_cpu_items ! 0) \<in> set (map snd example_cpu_items)"
    "snd (example_kum_items ! 0) \<in> set (map snd example_kum_items)"
    by (simp_all add: example_memory_items_def example_cpu_items_def example_kum_items_def)
  have n: "container_name (snd (example_memory_items ! 0)) = ''api''"
    by (simp add: example_memory_items_def new_ContainerMetrics_def)
  from overprovisioner_never_in_output
         [of example_memory_schedule DAList.empty "map snd example_memory_items"
            "DAList.Alist example_memory_items" "snd (example_memory_items ! 0)"
            example_cpu_schedule DAList.empty "DAList.Alist example_kum_items"
            "snd (example_kum_items ! 0)"
            "projr (print_utilization example_memory_schedule DAList.empty)"]
       overprovisioner_never_in_output
         [of example_memory_schedule DAList.empty "map snd example_cpu_items"
            "DAList.Alist example_cpu_items" "snd (example_cpu_items ! 0)"
            example_cpu_schedule]
       example_memory_run example_cpu_run example_kum_run example_print_run mem n
  show ?thesis by (simp add: example_items_impl list_all_iff)
qed

subsection \<open>Series without points\<close>

lemma query_memory_utilization_isl:
  "isl (query_memory_utilization schedule d) \<longleftrightarrow> isl (gather memory_coroutine schedule d)"
  by (simp add: query_memory_utilization_def Let_def split: sum.splits)

lemma query_cpu_utilization_isl:
  "isl (query_cpu_utilization schedule d) \<longleftrightarrow> isl (gather cpu_coroutine schedule d)"
  by (simp add: query_cpu_utilization_def Let_def split: sum.splits)

lemma empty_points_errors:
  assumes "points s = []"
  shows "query_avg_memory_request_utilization s d = Inl StatisticsError"
    and "query_max_memory_usage s d = Inl ValueError"
    and "query_avg_memory_usage s d = Inl StatisticsError"
    and "query_memory_request s d = Inl IndexError"
    and "query_avg_cpu_request_utilization s d = Inl StatisticsError"
    and "query_max_cpu_usage s d = Inl ValueError"
    and "query_avg_cpu_usage s d = Inl IndexError"
    and "query_cpu_request s d = Inl IndexError"
  using assms
  by (simp_all add: query_avg_memory_request_utilization_def query_max_memory_usage_def
        query_avg_memory_usage_def query_memory_request_def
        query_avg_cpu_request_utilization_def query_max_cpu_usage_def query_avg_cpu_usage_def
        query_cpu_request_def statistics_mean_def py_getitem0_def)

text \<open>
  C10. On a series without points each of the eight coroutine bodies raises: the mean
  raises \<open>StatisticsError\<close>, \<open>max\<close> raises \<open>ValueError\<close>, \<open>points[0]\<close> raises \<open>IndexError\<close>; on a
  series with a point no body raises. An aggregation call raises exactly when some series
  of its schedule has no points, and then returns no record at all.
\<close>

theorem series_without_points_aborts_call:
  "(points s = [] \<longrightarrow>
      query_avg_memory_request_utilization s d = Inl StatisticsError \<and>
      query_max_memory_usage s d = Inl ValueError \<and>
      query_avg_memory_usage s d = Inl StatisticsError \<and>
      query_memory_request s d = Inl IndexError \<and>
      query_avg_cpu_request_utilization s d = Inl StatisticsError \<and>
      query_max_cpu_usage s d = Inl ValueError \<and>
      query_avg_cpu_usage s d = Inl IndexError \<and>
      query_cpu_request s d = Inl IndexError) \<and>
   (points s \<noteq> [] \<longrightarrow> \<not> isl (memory_coroutine q s d) \<and> \<not> isl (cpu_coroutine cq s d)) \<and>
   (isl (query_memory_utilization schedule d) \<longleftrightarrow>
      (\<exists>(q, s) \<in> set schedule. points s = [])) \<and>
   (isl (query_cpu_utilization cpu_schedule d) \<longleftrightarrow>
      (\<exists>(q, s) \<in> set cpu_schedule. points s = []))"
proof (intro conjI impI)
  show "isl (query_memory_utilization schedule d) \<longleftrightarrow>
      (\<exists>(q, s) \<in> set schedule. points s = [])"
    unfolding query_memory_utilization_isl
    by (rule gather_isl) (rule memory_coroutine_isl)
  show "isl (query_cpu_utilization cpu_schedule d) \<longleftrightarrow>
      (\<exists>(q, s) \<in> set cpu_schedule. points s = [])"
    unfolding query_cpu_utilization_isl
    by (rule gather_isl) (rule cpu_coroutine_isl)
qed (simp_all add: empty_points_errors memory_coroutine_isl cpu_coroutine_isl)

text \<open>
  C10's theorem on concrete input: the series \<open>int_series ''api'' []\<close> has no points and
  \<open>query_memory_request\<close> raises \<open>IndexError\<close> on it; a call whose schedule holds that series
  raises, and the call on the example schedule, where every series has a point, does not.
\<close>

theorem series_without_points_aborts_call_witness:
  "points (int_series ''api'' []) = [] \<and>
   query_memory_request (int_series ''api'' []) DAList.empty = Inl IndexError \<and>
   query_max_memory_usage (int_series ''api'' []) DAList.empty = Inl ValueError \<and>
   points (int_series ''api'' [1]) \<noteq> [] \<and>
   \<not> isl (query_memory_request (int_series ''api'' [1]) DAList.empty) \<and>
   isl (query_memory_utilization
          [(Memory_request, int_series ''api'' [1]), (Max_memory_usage, int_series ''api'' [])]
          DAList.empty) \<and>
   \<not> isl (query_memory_utilization example_memory_schedule DAList.empty) \<and>
   isl (query_cpu_utilization [(Cpu_request, double_series ''api'' [])] DAList.empty) \<and>
   \<not> isl (query_cpu_utilization example_cpu_schedule DAList.empty)"
  using series_without_points_aborts_call
          [of "int_series ''api'' []" DAList.empty Memory_request Cpu_request
              "[(Memory_request, int_series ''api'' [1]), (Max_memory_usage, int_series ''api'' [])]"
              "[(Cpu_request, double_series ''api'' [])]"]
        series_without_points_aborts_call
          [of "int_series ''api'' [1]" DAList.empty Memory_request Cpu_request
              example_memory_schedule example_cpu_schedule]
  by (simp add: int_series_def double_series_def example_memory_schedule_def
        example_cpu_schedule_def)

subsection \<open>Fields no query wrote\<close>

lemma memory_call_created_entry:
  assumes "query_memory_utilization schedule self = Inr (result, self')"
    and "DAList.lookup self k = None" and "DAList.lookup self' k = Some m"
  shows "\<exists>m0. m = set_unutilized_memory m0 \<and> m \<in> set result \<and>
          (\<forall>cq. cpu_field_default cq m0) \<and> unutilized_cpu m0 = 0 \<and>
          (\<forall>q. (\<forall>s. (q, s) \<in> set schedule \<longrightarrow> container_key s \<noteq> k)
                 \<longrightarrow> memory_field_default q m0)"
proof -
  from assms(1) obtain d where g: "gather memory_coroutine schedule self = Inr d"
    and s: "self' = drop_overprovisioner container_name set_unutilized_memory (DAList.impl_of d) d"
    and r: "result = map snd (DAList.impl_of self')"
    by (rule query_memory_utilization_Inr)
  from assms(3) r have in_result: "m \<in> set result"
    by (auto simp only: values_iff)
  from assms(3) [unfolded s] obtain m0 where l0: "DAList.lookup d k = Some m0"
    and m: "m = set_unutilized_memory m0"
    by (rule drop_overprovisioner_entry)
  from created_by_memory_callD [OF gather_memory_created [OF g] l0 assms(2)]
  have c: "\<And>cq. cpu_field_default cq m0" and u: "unutilized_cpu m0 = 0"
    and w: "\<And>q. memory_field_default q m0 \<or>
                 (q, k) \<in> (\<lambda>(q, s). (q, container_key s)) ` set schedule"
    by blast+
  have "memory_field_default q m0"
    if "\<forall>s. (q, s) \<in> set schedule \<longrightarrow> container_key s \<noteq> k" for q
  proof -
    from that have "(q, k) \<notin> (\<lambda>(q, s). (q, container_key s)) ` set schedule" by auto
    with w [of q] show ?thesis by blast
  qed
  with m in_result c u show ?thesis by blast
qed

lemma cpu_call_created_entry:
  assumes "query_cpu_utilization schedule self = Inr (result, self')"
    and "DAList.lookup self k = None" and "DAList.lookup self' k = Some m"
  shows "\<exists>m0. m = set_unutilized_cpu m0 \<and> m \<in> set result \<and>
          (\<forall>mq. memory_field_default mq m0) \<and> unutilized_memory m0 = 0 \<and>
          (\<forall>q. (\<forall>s. (q, s) \<in> set schedule \<longrightarrow> container_key s \<noteq> k)
                 \<longrightarrow> cpu_field_default q m0)"
proof -
  from assms(1) obtain d where g: "gather cpu_coroutine schedule self = Inr d"
    and s: "self' = drop_overprovisioner container_name set_unutilized_cpu (DAList.impl_of d) d"
    and r: "result = map snd (DAList.impl_of self')"
    by (rule query_cpu_utilization_Inr)
  from assms(3) r have in_result: "m \<in> set result"
    by (auto simp only: values_iff)
  from assms(3) [unfolded s] obtain m0 where l0: "DAList.lookup d k = Some m0"
    and m: "m = set_unutilized_cpu m0"
    by (rule drop_overprovisioner_entry)
  from created_by_cpu_callD [OF gather_cpu_created [OF g] l0 assms(2)]
  have c: "\<And>mq. memory_field_default mq m0" and u: "unutilized_memory m0 = 0"
    and w: "\<And>q. cpu_field_default q m0 \<or>
                 (q, k) \<in> (\<lambda>(q, s). (q, container_key s)) ` set schedule"
    by blast+
  have "cpu_field_default q m0"
    if "\<forall>s. (q, s) \<in> set schedule \<longrightarrow> container_key s \<noteq> k" for q
  proof -
    from that have "(q, k) \<notin> (\<lambda>(q, s). (q, container_key s)) ` set schedule" by auto
    with w [of q] show ?thesis by blast
  qed
  with m in_result c u show ?thesis by blast
qed

text \<open>
  C9. Take a key \<open>k\<close> that the dict does not hold when an aggregation call begins and
  holds when the call returns, so that \<open>upsert_container\<close> created its record \<open>m\<close> during the
  call; \<open>m\<close> is among the records returned. Every field of \<open>m\<close> whose query ran no body on a
  series with key \<open>k\<close> is 0, and so is every field of the other family. In particular, when
  the request query has no series for \<open>k\<close>, \<open>memory_request\<close> is 0 and \<open>unutilized_memory\<close> is
  \<open>max(0, 0 - max_memory_usage)\<close>, which is 0 for every peak usage that is not negative, as a
  count of bytes is. The same holds of \<open>query_cpu_utilization\<close>.
\<close>

theorem unwritten_fields_keep_default:
  "(query_memory_utilization schedule self = Inr (result, self') \<longrightarrow>
    DAList.lookup self k = None \<longrightarrow> DAList.lookup self' k = Some m \<longrightarrow>
      m \<in> set result \<and>
      ((\<forall>s. (Memory_request, s) \<in> set schedule \<longrightarrow> container_key s \<noteq> k) \<longrightarrow>
         memory_request m = 0 \<and>
         unutilized_memory m = max 0 (- max_memory_usage m) \<and>
         (0 \<le> max_memory_usage m \<longrightarrow> unutilized_memory m = 0)) \<and>
      ((\<forall>s. (Max_memory_usage, s) \<in> set schedule \<longrightarrow> container_key s \<noteq> k) \<longrightarrow>
         max_memory_usage m = 0) \<and>
      ((\<forall>s. (Avg_memory_usage, s) \<in> set schedule \<longrightarrow> container_key s \<noteq> k) \<longrightarrow>
         avg_memory_usage m = 0) \<and>
      ((\<forall>s. (Avg_memory_request_utilization, s) \<in> set schedule \<longrightarrow> container_key s \<noteq> k) \<longrightarrow>
         avg_memory_request_utilization m = 0) \<and>
      cpu_request m = 0 \<and> avg_cpu_usage m = 0 \<and> avg_cpu_request_utilization m = 0 \<and>
      max_cpu_usage m = 0 \<and> unutilized_cpu m = 0) \<and>
   (query_cpu_utilization cpu_schedule self = Inr (result, self') \<longrightarrow>
    DAList.lookup self k = None \<longrightarrow> DAList.lookup self' k = Some m \<longrightarrow>
      m \<in> set result \<and>
      ((\<forall>s. (Cpu_request, s) \<in> set cpu_schedule \<longrightarrow> container_key s \<noteq> k) \<longrightarrow>
         cpu_request m = 0 \<and>
         unutilized_cpu m = max 0 (- max_cpu_usage m) \<and>
         (0 \<le> max_cpu_usage m \<longrightarrow> unutilized_cpu m = 0)) \<and>
      ((\<forall>s. (Max_cpu_usage, s) \<in> set cpu_schedule \<longrightarrow> container_key s \<noteq> k) \<longrightarrow>
         max_cpu_usage m = 0) \<and>
      ((\<forall>s. (Avg_cpu_usage, s) \<in> set cpu_schedule \<longrightarrow> container_key s \<noteq> k) \<longrightarrow>
         avg_cpu_usage m = 0) \<and>
      ((\<forall>s. (Avg_cpu_request_utilization, s) \<in> set cpu_schedule \<longrightarrow> container_key s \<noteq> k) \<longrightarrow>
         avg_cpu_request_utilization m = 0) \<and>
      memory_request m = 0 \<and> avg_memory_usage m = 0 \<and> avg_memory_request_utilization m = 0 \<and>
      max_memory_usage m = 0 \<and> unutilized_memory m = 0)"
proof (intro conjI impI)
  assume a: "query_memory_utilization schedule self = Inr (result, self')"
    "DAList.lookup self k = None" "DAList.lookup self' k = Some m"
  from memory_call_created_entry [OF a]
  obtain m0 where m: "m = set_unutilized_memory m0" and r: "m \<in> set result"
    and c: "\<And>cq. cpu_field_default cq m0" and u: "unutilized_cpu m0 = 0"
    and w: "\<And>q. (\<forall>s. (q, s) \<in> set schedule \<longrightarrow> container_key s \<noteq> k)
           \<Longrightarrow> memory_field_default q m0"
    by blast
  show "m \<in> set result" by (rule r)
  from c [of Cpu_request] c [of Avg_cpu_usage] c [of Avg_cpu_request_utilization]
    c [of Max_cpu_usage] u
  show "cpu_request m = 0" "avg_cpu_usage m = 0" "avg_cpu_request_utilization m = 0"
    "max_cpu_usage m = 0" "unutilized_cpu m = 0"
    by (simp_all add: m set_unutilized_memory_def)
  {
    assume "\<forall>s. (Memory_request, s) \<in> set schedule \<longrightarrow> container_key s \<noteq> k"
    from w [OF this] have z: "memory_request m0 = 0" by simp
    then show "memory_request m = 0" by (simp add: m set_unutilized_memory_def)
    from z show "unutilized_memory m = max 0 (- max_memory_usage m)"
      by (simp add: m set_unutilized_memory_def)
    assume "0 \<le> max_memory_usage m"
    with z show "unutilized_memory m = 0" by (simp add: m set_unutilized_memory_def)
  }
  {
    assume "\<forall>s. (Max_memory_usage, s) \<in> set schedule \<longrightarrow> container_key s \<noteq> k"
    from w [OF this] show "max_memory_usage m = 0" by (simp add: m set_unutilized_memory_def)
  }
  {
    assume "\<forall>s. (Avg_memory_usage, s) \<in> set schedule \<longrightarrow> container_key s \<noteq> k"
    from w [OF this] show "avg_memory_usage m = 0" by (simp add: m set_unutilized_memory_def)
  }
  {
    assume "\<forall>s. (Avg_memory_request_utilization, s) \<in> set schedule \<longrightarrow> container_key s \<noteq> k"
    from w [OF this] show "avg_memory_request_utilization m = 0"
      by (simp add: m set_unutilized_memory_def)
  }
next
  assume a: "query_cpu_utilization cpu_schedule self = Inr (result, self')"
    "DAList.lookup self k = None" "DAList.lookup self' k = Some m"
  from cpu_call_created_entry [OF a]
  obtain m0 where m: "m = set_unutilized_cpu m0" and r: "m \<in> set result"
    and c: "\<And>mq. memory_field_default mq m0" and u: "unutilized_memory m0 = 0"
    and w: "\<And>q. (\<forall>s. (q, s) \<in> set cpu_schedule \<longrightarrow> container_key s \<noteq> k)
           \<Longrightarrow> cpu_field_default q m0"
    by blast
  show "m \<in> set result" by (rule r)
  from c [of Memory_request] c [of Avg_memory_usage] c [of Avg_memory_request_utilization]
    c [of Max_memory_usage] u
  show "memory_request m = 0" "avg_memory_usage m = 0" "avg_memory_request_utilization m = 0"
    "max_memory_usage m = 0" "unutilized_memory m = 0"
    by (simp_all add: m set_unutilized_cpu_def)
  {
    assume "\<forall>s. (Cpu_request, s) \<in> set cpu_schedule \<longrightarrow> container_key s \<noteq> k"
    from w [OF this] have z: "cpu_request m0 = 0" by simp
    then show "cpu_request m = 0" by (simp add: m set_unutilized_cpu_def)
    from z show "unutilized_cpu m = max 0 (- max_cpu_usage m)"
      by (simp add: m set_unutilized_cpu_def)
    assume "0 \<le> max_cpu_usage m"
    with z show "unutilized_cpu m = 0" by (simp add: m set_unutilized_cpu_def)
  }
  {
    assume "\<forall>s. (Max_cpu_usage, s) \<in> set cpu_schedule \<longrightarrow> container_key s \<noteq> k"
    from w [OF this] show "max_cpu_usage m = 0" by (simp add: m set_unutilized_cpu_def)
  }
  {
    assume "\<forall>s. (Avg_cpu_usage, s) \<in> set cpu_schedule \<longrightarrow> container_key s \<noteq> k"
    from w [OF this] show "avg_cpu_usage m = 0" by (simp add: m set_unutilized_cpu_def)
  }
  {
    assume "\<forall>s. (Avg_cpu_request_utilization, s) \<in> set cpu_schedule \<longrightarrow> container_key s \<noteq> k"
    from w [OF this] show "avg_cpu_request_utilization m = 0"
      by (simp add: m set_unutilized_cpu_def)
  }
qed

lemma example_usage_only_run:
  "query_memory_utilization example_usage_only_schedule DAList.empty =
     Inr (map snd example_usage_only_items, DAList.Alist example_usage_only_items)"
  by (simp add: query_memory_utilization_def example_usage_only_schedule_def int_series_def
        query_memory_request_def query_max_memory_usage_def upsert_container_def
        container_key_def py_getitem0_def new_ContainerMetrics_def set_unutilized_memory_def
        example_usage_only_items_def dict_eval Let_def)

lemma example_request_only_run:
  "query_cpu_utilization example_request_only_schedule DAList.empty =
     Inr (map snd example_request_only_items, DAList.Alist example_request_only_items)"
  by (simp add: query_cpu_utilization_def example_request_only_schedule_def double_series_def
        query_cpu_request_def query_max_cpu_usage_def upsert_container_def
        container_key_def py_getitem0_def new_ContainerMetrics_def set_unutilized_cpu_def
        example_request_only_items_def dict_eval Let_def)

lemma example_only_lookup:
  "DAList.lookup (DAList.Alist example_usage_only_items) (''prod'', ''cache'', ''deploy'') =
     Some (snd (example_usage_only_items ! 1))"
  "DAList.lookup (DAList.Alist example_request_only_items) (''prod'', ''cache'', ''deploy'') =
     Some (snd (example_request_only_items ! 1))"
  by (simp_all add: DAList.lookup.rep_eq DAList.Alist_inverse example_usage_only_items_def
        example_request_only_items_def)

lemma example_only_no_request:
  "\<forall>s. (Memory_request, s) \<in> set example_usage_only_schedule \<longrightarrow>
         container_key s \<noteq> (''prod'', ''cache'', ''deploy'')"
  "\<forall>s. (Cpu_request, s) \<in> set example_request_only_schedule \<longrightarrow>
         container_key s \<noteq> (''prod'', ''cache'', ''deploy'')"
  by (simp_all add: example_usage_only_schedule_def example_request_only_schedule_def
        int_series_def double_series_def container_key_def)

text \<open>
  C9's theorem on a schedule in which the container \<open>cache\<close> has a series of peak usage
  (64 MiB) and no series of requested bytes: its record is returned with
  \<open>memory_request = 0\<close> and \<open>unutilized_memory = 0\<close>, and with the CPU fields at 0.
\<close>

theorem unwritten_fields_keep_default_witness:
  "query_memory_utilization example_usage_only_schedule DAList.empty =
     Inr (map snd example_usage_only_items, DAList.Alist example_usage_only_items) \<and>
   DAList.lookup DAList.empty (''prod'', ''cache'', ''deploy'') = (None :: ContainerMetrics option) \<and>
   DAList.lookup (DAList.Alist example_usage_only_items) (''prod'', ''cache'', ''deploy'') =
     Some (snd (example_usage_only_items ! 1)) \<and>
   max_memory_usage (snd (example_usage_only_items ! 1)) = 64 * 1024 ^ 2 \<and>
   memory_request (snd (example_usage_only_items ! 1)) = 0 \<and>
   unutilized_memory (snd (example_usage_only_items ! 1)) = 0 \<and>
   avg_memory_usage (snd (example_usage_only_items ! 1)) = 0 \<and>
   cpu_request (snd (example_usage_only_items ! 1)) = 0 \<and>
   query_cpu_utilization example_request_only_schedule DAList.empty =
     Inr (map snd example_request_only_items, DAList.Alist example_request_only_items) \<and>
   max_cpu_usage (snd (example_request_only_items ! 1)) = 1 / 4 \<and>
   cpu_request (snd (example_request_only_items ! 1)) = 0 \<and>
   unutilized_cpu (snd (example_request_only_items ! 1)) = 0 \<and>
   memory_request (snd (example_request_only_items ! 1)) = 0"
proof -
  have v: "max_memory_usage (snd (example_usage_only_items ! 1)) = 64 * 1024 ^ 2"
    "max_cpu_usage (snd (example_request_only_items ! 1)) = 1 / 4"
    by (simp_all add: example_usage_only_items_def example_request_only_items_def)
  have a: "\<forall>s. (Avg_memory_usage, s) \<in> set example_usage_only_schedule \<longrightarrow>
         container_key s \<noteq> (''prod'', ''cache'', ''deploy'')"
    by (simp add: example_usage_only_schedule_def)
  have e: "DAList.lookup DAList.empty (''prod'', ''cache'', ''deploy'') =
             (None :: ContainerMetrics option)"
    by simp
  from unwritten_fields_keep_default
         [of example_usage_only_schedule DAList.empty "map snd example_usage_only_items"
            "DAList.Alist example_usage_only_items" "(''prod'', ''cache'', ''deploy'')"
            "snd (example_usage_only_items ! 1)" example_request_only_schedule]
       example_usage_only_run example_only_lookup(1) example_only_no_request(1) a e v(1)
  have m: "memory_request (snd (example_usage_only_items ! 1)) = 0 \<and>
   unutilized_memory (snd (example_usage_only_items ! 1)) = 0 \<and>
   avg_memory_usage (snd (example_usage_only_items ! 1)) = 0 \<and>
   cpu_request (snd (example_usage_only_items ! 1)) = 0"
    by simp
  from unwritten_fields_keep_default
         [of example_usage_only_schedule DAList.empty "map snd example_request_only_items"
            "DAList.Alist example_request_only_items" "(''prod'', ''cache'', ''deploy'')"
            "snd (example_request_only_items ! 1)" example_request_only_schedule]
       example_request_only_run example_only_lookup(2) example_only_no_request(2) e v(2)
  have c: "cpu_request (snd (example_request_only_items ! 1)) = 0 \<and>
   unutilized_cpu (snd (example_request_only_items ! 1)) = 0 \<and>
   memory_request (snd (example_request_only_items ! 1)) = 0"
    by simp
  from m c v e example_usage_only_run example_request_only_run example_only_lookup(1)
  show ?thesis by simp
qed

subsection \<open>The order of the rows and the Total row\<close>

lemma mset_sort_reverse [simp]: "mset (sort_reverse key xs) = mset xs"
  by (simp add: sort_reverse_def)

lemma length_sort_reverse [simp]: "length (sort_reverse key xs) = length xs"
  by (simp add: sort_reverse_def)

lemma sort_reverse_descending:
  fixes key :: "'a \<Rightarrow> 'k::linordered_idom"
  shows "sorted_wrt (\<lambda>a b. key b \<le> key a) (sort_reverse key xs)"
proof -
  have "sorted (map (\<lambda>x. - key x) (sort_key (\<lambda>x. - key x) xs))"
    by (rule sorted_sort_key)
  then show ?thesis
    by (simp add: sort_reverse_def sorted_map)
qed

lemma sum_list_sort_reverse [simp]:
  fixes f :: "'a \<Rightarrow> 'b::comm_monoid_add"
  shows "sum_list (map f (sort_reverse key xs)) = sum_list (map f xs)"
proof -
  have "mset (map f (sort_reverse key xs)) = mset (map f xs)"
    by simp
  then show ?thesis
    by (metis sum_mset_sum_list)
qed

lemma format_memory_metrics_as_table_nonempty:
  assumes "metrics \<noteq> []"
  shows "format_memory_metrics_as_table metrics =
    Inr \<lparr>tabular_data = map memory_row (sort_reverse unutilized_memory metrics) @
           [[Str ''Total'', Str [],
             Cat [Fixed0 (real_of_int (sum_list (map memory_request metrics)) / 1024 ^ 3),
                  Str '' GB''],
             Cat [Fixed0 (sum_list (map avg_memory_usage metrics) / real (length metrics)
                          / 1024 ^ 2), Str ''M''],
             Str [],
             percentage_gradient
               (sum_list (map avg_memory_request_utilization metrics) / real (length metrics)),
             Cat [Fixed0 (real_of_int (sum_list (map unutilized_memory metrics)) / 1024 ^ 3),
                  Str '' GB'']]],
         headers = [''Namespace'', ''Deployment/Container'', ''Request'', ''Avg'', ''Max'',
                    ''Avg Utilization'', ''Unutilized'']\<rparr>"
  using assms
  by (simp add: format_memory_metrics_as_table_def py_truediv_def Let_def)

lemma format_cpu_metrics_as_table_nonempty:
  assumes "metrics \<noteq> []"
  shows "format_cpu_metrics_as_table metrics =
    Inr \<lparr>tabular_data = map cpu_row (sort_reverse unutilized_cpu metrics) @
           [[Str ''Total'', Str [],
             Dec (py_int (sum_list (map cpu_request metrics) * 1000)),
             Dec (py_int (sum_list (map avg_cpu_usage metrics) / real (length metrics) * 1000)),
             Str [],
             Dec (py_int (sum_list (map unutilized_cpu metrics) * 1000))]],
         headers = [''Namespace'', ''Deployment/Container'', ''Request'', ''Avg'', ''Max'',
                    ''Unutilized'']\<rparr>"
  using assms
  by (simp add: format_cpu_metrics_as_table_def py_truediv_def Let_def)

text \<open>
  C5. For a non-empty list the memory formatter returns a table whose rows but the last
  are the rows of the records, rearranged (the same records, each as often as in the
  list) in descending order of \<open>unutilized_memory\<close>, and whose last row is the \<open>Total\<close> row:
  the requests summed, the average usage and the utilization averaged over the records,
  the unutilized values summed. The CPU formatter does the same with \<open>unutilized_cpu\<close>; its
  \<open>Total\<close> row has the requests summed, the average usage averaged and the unutilized
  values summed, and no utilization cell.
\<close>

theorem table_rows_descending_total_last:
  "metrics \<noteq> [] \<longrightarrow>
   (\<exists>rows table.
      format_memory_metrics_as_table metrics = Inr table \<and>
      mset rows = mset metrics \<and>
      sorted_wrt (\<lambda>a b. unutilized_memory b \<le> unutilized_memory a) rows \<and>
      butlast (tabular_data table) = map memory_row rows \<and>
      last (tabular_data table) =
        [Str ''Total'', Str [],
         Cat [Fixed0 (real_of_int (sum_list (map memory_request metrics)) / 1024 ^ 3),
              Str '' GB''],
         Cat [Fixed0 (sum_list (map avg_memory_usage metrics) / real (length metrics)
                      / 1024 ^ 2), Str ''M''],
         Str [],
         percentage_gradient
           (sum_list (map avg_memory_request_utilization metrics) / real (length metrics)),
         Cat [Fixed0 (real_of_int (sum_list (map unutilized_memory metrics)) / 1024 ^ 3),
              Str '' GB'']]) \<and>
   (\<exists>rows table.
      format_cpu_metrics_as_table metrics = Inr table \<and>
      mset rows = mset metrics \<and>
      sorted_wrt (\<lambda>a b. unutilized_cpu b \<le> unutilized_cpu a) rows \<and>
      butlast (tabular_data table) = map cpu_row rows \<and>
      last (tabular_data table) =
        [Str ''Total'', Str [],
         Dec (py_int (sum_list (map cpu_request metrics) * 1000)),
         Dec (py_int (sum_list (map avg_cpu_usage metrics) / real (length metrics) * 1000)),
         Str [],
         Dec (py_int (sum_list (map unutilized_cpu metrics) * 1000))])"
proof (intro impI conjI)
  assume ne: "metrics \<noteq> []"
  from format_memory_metrics_as_table_nonempty [OF ne]
  obtain table where t: "format_memory_metrics_as_table metrics = Inr table"
    and d: "tabular_data table =
      map memory_row (sort_reverse unutilized_memory metrics) @
      [[Str ''Total'', Str [],
         Cat [Fixed0 (real_of_int (sum_list (map memory_request metrics)) / 1024 ^ 3),
              Str '' GB''],
         Cat [Fixed0 (sum_list (map avg_memory_usage metrics) / real (length metrics)
                      / 1024 ^ 2), Str ''M''],
         Str [],
         percentage_gradient
           (sum_list (map avg_memory_request_utilization metrics) / real (length metrics)),
         Cat [Fixed0 (real_of_int (sum_list (map unutilized_memory metrics)) / 1024 ^ 3),
              Str '' GB'']]]"
    by simp
  show "\<exists>rows table.
      format_memory_metrics_as_table metrics = Inr table \<and>
      mset rows = mset metrics \<and>
      sorted_wrt (\<lambda>a b. unutilized_memory b \<le> unutilized_memory a) rows \<and>
      butlast (tabular_data table) = map memory_row rows \<and>
      last (tabular_data table) =
        [Str ''Total'', Str [],
         Cat [Fixed0 (real_of_int (sum_list (map memory_request metrics)) / 1024 ^ 3),
              Str '' GB''],
         Cat [Fixed0 (sum_list (map avg_memory_usage metrics) / real (length metrics)
                      / 1024 ^ 2), Str ''M''],
         Str [],
         percentage_gradient
           (sum_list (map avg_memory_request_utilization metrics) / real (length metrics)),
         Cat [Fixed0 (real_of_int (sum_list (map unutilized_memory metrics)) / 1024 ^ 3),
              Str '' GB'']]"
    by (intro exI [of _ "sort_reverse unutilized_memory metrics"] exI [of _ table])
       (simp add: t d sort_reverse_descending)
  from format_cpu_metrics_as_table_nonempty [OF ne]
  obtain cpu_table where ct: "format_cpu_metrics_as_table metrics = Inr cpu_table"
    and cd: "tabular_data cpu_table =
      map cpu_row (sort_reverse unutilized_cpu metrics) @
      [[Str ''Total'', Str [],
         Dec (py_int (sum_list (map cpu_request metrics) * 1000)),
         Dec (py_int (sum_list (map avg_cpu_usage metrics) / real (length metrics) * 1000)),
         Str [],
         Dec (py_int (sum_list (map unutilized_cpu metrics) * 1000))]]"
    by simp
  show "\<exists>rows table.
      format_cpu_metrics_as_table metrics = Inr table \<and>
      mset rows = mset metrics \<and>
      sorted_wrt (\<lambda>a b. unutilized_cpu b \<le> unutilized_cpu a) rows \<and>
      butlast (tabular_data table) = map cpu_row rows \<and>
      last (tabular_data table) =
        [Str ''Total'', Str [],
         Dec (py_int (sum_list (map cpu_request metrics) * 1000)),
         Dec (py_int (sum_list (map avg_cpu_usage metrics) / real (length metrics) * 1000)),
         Str [],
         Dec (py_int (sum_list (map unutilized_cpu metrics) * 1000))]"
    by (intro exI [of _ "sort_reverse unutilized_cpu metrics"] exI [of _ cpu_table])
       (simp add: ct cd sort_reverse_descending)
qed

lemma example_metrics_sorted:
  "sort_reverse unutilized_memory example_metrics = [example_metrics ! 1, example_metrics ! 0]"
  "sort_reverse unutilized_cpu example_metrics = [example_metrics ! 1, example_metrics ! 0]"
  by (simp_all add: sort_reverse_def example_metrics_def)

text \<open>
  C5's theorem on the two example records, given with the smaller unutilized value first:
  the table has the row of \<open>api\<close> (400 MiB unutilized) above the row of \<open>worker\<close> (0), then the
  \<open>Total\<close> row, whose unutilized cell is the sum, 400 MiB.
\<close>

theorem table_rows_descending_total_last_witness:
  "example_metrics \<noteq> [] \<and>
   (\<exists>rows table.
      format_memory_metrics_as_table example_metrics = Inr table \<and>
      length rows = 2 \<and>
      sorted_wrt (\<lambda>a b. unutilized_memory b \<le> unutilized_memory a) rows \<and>
      butlast (tabular_data table) = map memory_row rows) \<and>
   map (\<lambda>row. row ! 1)
     (tabular_data (projr (format_memory_metrics_as_table example_metrics))) =
     [Str ''deploy/api'', Str ''deploy/worker'', Str []] \<and>
   last (tabular_data (projr (format_memory_metrics_as_table example_metrics))) ! 0 =
     Str ''Total'' \<and>
   last (tabular_data (projr (format_memory_metrics_as_table example_metrics))) ! 6 =
     Cat [Fixed0 (400 * 1024 ^ 2 / 1024 ^ 3), Str '' GB''] \<and>
   map (\<lambda>row. row ! 1)
     (tabular_data (projr (format_cpu_metrics_as_table example_metrics))) =
     [Str ''deploy/api'', Str ''deploy/worker'', Str []]"
proof -
  from table_rows_descending_total_last [of example_metrics] example_metrics_nonempty
  obtain rows table where t: "format_memory_metrics_as_table example_metrics = Inr table"
    and m: "mset rows = mset example_metrics"
    and s: "sorted_wrt (\<lambda>a b. unutilized_memory b \<le> unutilized_memory a) rows"
    and b: "butlast (tabular_data table) = map memory_row rows"
    by blast
  from m have "length rows = length example_metrics" by (rule mset_eq_length)
  then have "length rows = 2" by (simp add: example_metrics_def)
  with t s b have 1: "\<exists>rows table.
      format_memory_metrics_as_table example_metrics = Inr table \<and>
      length rows = 2 \<and>
      sorted_wrt (\<lambda>a b. unutilized_memory b \<le> unutilized_memory a) rows \<and>
      butlast (tabular_data table) = map memory_row rows"
    by blast
  have 2: "map (\<lambda>row. row ! 1)
     (tabular_data (projr (format_memory_metrics_as_table example_metrics))) =
     [Str ''deploy/api'', Str ''deploy/worker'', Str []]"
    "last (tabular_data (projr (format_memory_metrics_as_table example_metrics))) ! 0 =
     Str ''Total''"
    "last (tabular_data (projr (format_memory_metrics_as_table example_metrics))) ! 6 =
     Cat [Fixed0 (400 * 1024 ^ 2 / 1024 ^ 3), Str '' GB'']"
    by (simp_all add: format_memory_metrics_as_table_nonempty [OF example_metrics_nonempty]
          example_metrics_sorted)
       (simp_all add: example_metrics_def memory_row_def new_ContainerMetrics_def)
  have 3: "map (\<lambda>row. row ! 1)
     (tabular_data (projr (format_cpu_metrics_as_table example_metrics))) =
     [Str ''deploy/api'', Str ''deploy/worker'', Str []]"
    by (simp add: format_cpu_metrics_as_table_nonempty [OF example_metrics_nonempty]
          example_metrics_sorted)
       (simp add: example_metrics_def cpu_row_def new_ContainerMetrics_def)
  from 1 2 3 example_metrics_nonempty show ?thesis by blast
qed

section \<open>The query filter\<close>

lemma render_namespace_clauses:
  "map render (map (Equals ''resource.labels.namespace_name'') nss) =
     map (\<lambda>namespace. ''resource.labels.namespace_name = '' @ quoted namespace) nss"
  by simp

lemma memory_query_filter:
  "snd (snd (memory_query_args q)) = render (Equals ''metric.type'' (memory_metric_type q))"
  by (cases q) simp_all

lemma cpu_query_filter:
  "snd (snd (cpu_query_args q)) = render (Equals ''metric.type'' (cpu_metric_type q))"
  by (cases q) simp_all

lemma MetricsClient_query_filter:
  "request_filter (MetricsClient_query project namespaces aligner reducer
                     (render (Equals ''metric.type'' t))) =
     render (spec_query_filter True t namespaces)"
proof (cases namespaces)
  case None
  then show ?thesis by (simp add: MetricsClient_query_def spec_query_filter_def)
next
  case (Some nss)
  show ?thesis
  proof (cases nss)
    case Nil
    with Some show ?thesis by (simp add: MetricsClient_query_def spec_query_filter_def)
  next
    case (Cons n ns)
    with Some show ?thesis
      by (simp add: MetricsClient_query_def spec_query_filter_def comp_def)
  qed
qed

lemma UtilizationMonitor_query_filter:
  "request_filter (UtilizationMonitor_query project namespaces duration aligner reducer
                     (render (Equals ''metric.type'' t))) =
     render (spec_query_filter False t namespaces)"
proof (cases namespaces)
  case None
  then show ?thesis by (simp add: UtilizationMonitor_query_def spec_query_filter_def)
next
  case (Some nss)
  show ?thesis
  proof (cases nss)
    case Nil
    with Some show ?thesis by (simp add: UtilizationMonitor_query_def spec_query_filter_def)
  next
    case (Cons n ns)
    with Some show ?thesis
      by (simp add: UtilizationMonitor_query_def spec_query_filter_def comp_def)
  qed
qed

lemma holds_spec_query_filter:
  "holds label (spec_query_filter exclude t namespaces) \<longleftrightarrow>
     label ''metric.type'' = t \<and>
     (exclude \<longrightarrow> label ''resource.labels.namespace_name'' \<noteq> ''kube-system'') \<and>
     (case namespaces of
        None \<Rightarrow> True
      | Some [] \<Rightarrow> True
      | Some (n # ns) \<Rightarrow> label ''resource.labels.namespace_name'' \<in> set (n # ns))"
  by (auto simp: spec_query_filter_def list_ex_iff split: option.splits list.splits)

text \<open>
  C2, as the code has it. Every query of \<open>MetricsClient\<close>, of either family, sends the filter
  the specification describes: the metric type, the exclusion of \<open>kube-system\<close> and, when a
  non-empty allow-list is supplied, the disjunction over exactly its namespaces; such a
  filter selects the series of that metric type whose namespace is not \<open>kube-system\<close> and is
  one of the listed ones. Every query of the command-line tool sends the metric type and
  the disjunction only: its filter has no exclusion clause, and without an allow-list it
  selects every series of the metric type, those of \<open>kube-system\<close> too.
\<close>

theorem query_filter_as_sent:
  "request_filter (memory_request_sent project namespaces q) =
     render (spec_query_filter True (memory_metric_type q) namespaces) \<and>
   request_filter (cpu_request_sent project namespaces cq) =
     render (spec_query_filter True (cpu_metric_type cq) namespaces) \<and>
   request_filter (kum_request_sent project namespaces duration q) =
     render (spec_query_filter False (memory_metric_type q) namespaces) \<and>
   (holds label (spec_query_filter True t (Some (n # ns))) \<longleftrightarrow>
      label ''metric.type'' = t \<and>
      label ''resource.labels.namespace_name'' \<noteq> ''kube-system'' \<and>
      label ''resource.labels.namespace_name'' \<in> set (n # ns)) \<and>
   (holds label (spec_query_filter True t None) \<longleftrightarrow>
      label ''metric.type'' = t \<and>
      label ''resource.labels.namespace_name'' \<noteq> ''kube-system'') \<and>
   (holds label (spec_query_filter False t (Some (n # ns))) \<longleftrightarrow>
      label ''metric.type'' = t \<and>
      label ''resource.labels.namespace_name'' \<in> set (n # ns)) \<and>
   (holds label (spec_query_filter False t None) \<longleftrightarrow> label ''metric.type'' = t)"
proof -
  have m: "request_filter (memory_request_sent project namespaces q) =
     render (spec_query_filter True (memory_metric_type q) namespaces)"
    using memory_query_filter [of q] MetricsClient_query_filter
    by (cases "memory_query_args q") (simp add: memory_request_sent_def)
  have c: "request_filter (cpu_request_sent project namespaces cq) =
     render (spec_query_filter True (cpu_metric_type cq) namespaces)"
    using cpu_query_filter [of cq] MetricsClient_query_filter
    by (cases "cpu_query_args cq") (simp add: cpu_request_sent_def)
  have k: "request_filter (kum_request_sent project namespaces duration q) =
     render (spec_query_filter False (memory_metric_type q) namespaces)"
    using memory_query_filter [of q] UtilizationMonitor_query_filter
    by (cases "memory_query_args q") (simp add: kum_request_sent_def)
  from m c k show ?thesis
    by (simp add: holds_spec_query_filter)
qed

lemma example_filter_rendered:
  "render (spec_query_filter True (memory_metric_type Memory_request) (Some [''ns-a'', ''ns-b''])) =
     ''metric.type = '' @ quoted ''kubernetes.io/container/memory/request_bytes'' @
     '' AND resource.labels.namespace_name != '' @ quoted ''kube-system'' @
     '' AND (resource.labels.namespace_name = '' @ quoted ''ns-a'' @
     '' OR resource.labels.namespace_name = '' @ quoted ''ns-b'' @ '')''"
  by (simp add: spec_query_filter_def)

text \<open>
  C2's theorem on the allow-list \<open>["ns-a", "ns-b"]\<close>: the text of the filter that the
  request query of \<open>MetricsClient\<close> sends.
\<close>

theorem query_filter_as_sent_witness:
  "request_filter (memory_request_sent ''my-project'' (Some [''ns-a'', ''ns-b'']) Memory_request) =
     ''metric.type = '' @ quoted ''kubernetes.io/container/memory/request_bytes'' @
     '' AND resource.labels.namespace_name != '' @ quoted ''kube-system'' @
     '' AND (resource.labels.namespace_name = '' @ quoted ''ns-a'' @
     '' OR resource.labels.namespace_name = '' @ quoted ''ns-b'' @ '')''"
  using query_filter_as_sent [of "''my-project''" "Some [''ns-a'', ''ns-b'']" Memory_request]
  by (simp only: example_filter_rendered)

text \<open>
  C2 as stated fails for the command-line tool: without an allow-list the filter of its
  request query is the metric type alone, and \<open>kube-system\<close> occurs nowhere in it.
\<close>

theorem cli_filter_counterexample:
  "request_filter (kum_request_sent ''my-project'' None 604800 Memory_request) =
     ''metric.type = '' @ quoted ''kubernetes.io/container/memory/request_bytes'' \<and>
   \<not> sublist ''kube-system''
       (request_filter (kum_request_sent ''my-project'' None 604800 Memory_request))"
  by (simp add: kum_request_sent_def UtilizationMonitor_query_def quoted_def sublist_code)

section \<open>Series with several points\<close>

text \<open>
  C4, evaluated on series of two points. The requested reducer of \<open>query_avg_cpu_usage\<close> is
  the mean, and the field it writes from the points 1 and 3 is the first point, 1, not their
  mean, 2. The requested reducer of \<open>query_memory_request\<close> and of \<open>query_cpu_request\<close> is the
  maximum, and the field each writes is the first point (100 of 100 and 200; 1 of 1 and 3),
  not the maximum. The coroutines beside them do reduce all the points:
  \<open>query_max_memory_usage\<close> writes 200 and \<open>query_avg_memory_usage\<close> writes 2.
\<close>

theorem first_point_written_not_reduction:
  "cross_series_reducer (cpu_request_sent ''my-project'' None Avg_cpu_usage) = REDUCE_MEAN \<and>
   map_sum id (\<lambda>self. map_option avg_cpu_usage (DAList.lookup self (''prod'', ''api'', ''deploy'')))
     (query_avg_cpu_usage (double_series ''api'' [1, 3]) DAList.empty) = Inr (Some 1) \<and>
   statistics_mean (map double_value (points (double_series ''api'' [1, 3]))) = Inr 2 \<and>
   cross_series_reducer (memory_request_sent ''my-project'' None Memory_request) = REDUCE_MAX \<and>
   map_sum id (\<lambda>self. map_option memory_request (DAList.lookup self (''prod'', ''api'', ''deploy'')))
     (query_memory_request (int_series ''api'' [100, 200]) DAList.empty) = Inr (Some 100) \<and>
   map_sum id int64_value (py_max_key int64_value (points (int_series ''api'' [100, 200]))) =
     Inr 200 \<and>
   cross_series_reducer (cpu_request_sent ''my-project'' None Cpu_request) = REDUCE_MAX \<and>
   map_sum id (\<lambda>self. map_option cpu_request (DAList.lookup self (''prod'', ''api'', ''deploy'')))
     (query_cpu_request (double_series ''api'' [1, 3]) DAList.empty) = Inr (Some 1) \<and>
   map_sum id double_value (py_max_key double_value (points (double_series ''api'' [1, 3]))) =
     Inr 3 \<and>
   map_sum id (\<lambda>self. map_option max_memory_usage
                        (DAList.lookup self (''prod'', ''api'', ''deploy'')))
     (query_max_memory_usage (int_series ''api'' [100, 200]) DAList.empty) = Inr (Some 200) \<and>
   map_sum id (\<lambda>self. map_option avg_memory_usage
                        (DAList.lookup self (''prod'', ''api'', ''deploy'')))
     (query_avg_memory_usage (double_series ''api'' [1, 3]) DAList.empty) = Inr (Some 2)"
  by (simp add: cpu_request_sent_def memory_request_sent_def MetricsClient_query_def
        query_avg_cpu_usage_def query_memory_request_def query_cpu_request_def
        query_max_memory_usage_def query_avg_memory_usage_def
        upsert_container_def container_key_def double_series_def int_series_def
        py_getitem0_def statistics_mean_def lookup_map_entry Let_def)

end
